theory Spec2Isabelle
  imports Main
begin

text \<open>
  simple-idb: the class \<open>SimpleIDB\<close> of \<open>src/index.ts\<close>, a promise-returning
  adapter over the browser's IndexedDB. The handle, its methods and the three handlers
  that \<open>open\<close> installs are taken from the source; the storage engine they call is
  described as far as the adapter observes it. A promise is given by the value it
  settles with; a thrown exception and a rejected promise are both \<open>Inl\<close>.
\<close>

section \<open>Values and errors\<close>

text \<open>
  Records are opaque values of caller-defined shape. They are modelled by a small value
  type: \<open>undefined\<close>, numbers, strings, and objects as lists of named fields.
  Numbers are integers here (the adapter never computes with them).
\<close>

datatype jsval = JUndefined | JNumber int | JString string | JObject "(string \<times> jsval) list"

type_synonym IDBKey = jsval

text \<open>Exceptions raised by the storage engine itself, by name.\<close>

datatype exception_name =
  InvalidStateError | NotFoundError | ConstraintError | DataError | ReadOnlyError
  | InvalidAccessError | TransactionInactiveError | AbortError | VersionError

datatype DOMException = DOMException (exception: exception_name) (message: string)

text \<open>
  Everything the adapter can fail with: an \<open>Error\<close> it constructs itself, carrying
  the message text of \<open>src/index.ts\<close>, or an engine exception that passes through it.
\<close>

datatype error = Error string | Thrown DOMException

text \<open>The error kinds of the specification, as the messages the source constructs.\<close>

definition UnsupportedEnvironment :: error where
  "UnsupportedEnvironment = Error ''IndexedDB is not supported in this environment''"

definition NotOpen :: error where
  "NotOpen = Error ''Database not open. Call open() first.''"

definition StoreNotFound :: "string \<Rightarrow> error" where
  "StoreNotFound storeName =
     Error (''Object store '' @ [CHR 0x22] @ storeName @ [CHR 0x22]
            @ '' does not exist. Create it first with createStore().'')"

definition IndexCreationOutsideUpgrade :: error where
  "IndexCreationOutsideUpgrade =
     Error (''createIndex must be called within the upgradeCallback during open(). ''
            @ ''Indexes can only be created during database upgrades.'')"

text \<open>\<^verbatim>\<open>request.error?.message || 'Unknown error'\<close>: an absent error and an empty
  message both give the fallback text.\<close>

definition failure_message :: "DOMException option \<Rightarrow> string" where
  "failure_message err =
     (case err of
        None \<Rightarrow> ''Unknown error''
      | Some ex \<Rightarrow> if message ex = [] then ''Unknown error'' else message ex)"

definition OpenFailed :: "DOMException option \<Rightarrow> error" where
  "OpenFailed err = Error (''Failed to open database: '' @ failure_message err)"

definition AddFailed :: "DOMException option \<Rightarrow> error" where
  "AddFailed err = Error (''Failed to add record: '' @ failure_message err)"

definition GetFailed :: "DOMException option \<Rightarrow> error" where
  "GetFailed err = Error (''Failed to get record: '' @ failure_message err)"

definition PutFailed :: "DOMException option \<Rightarrow> error" where
  "PutFailed err = Error (''Failed to put record: '' @ failure_message err)"

definition DeleteFailed :: "DOMException option \<Rightarrow> error" where
  "DeleteFailed err = Error (''Failed to delete record: '' @ failure_message err)"

definition ClearFailed :: "DOMException option \<Rightarrow> error" where
  "ClearFailed err = Error (''Failed to clear store: '' @ failure_message err)"

definition GetAllFailed :: "DOMException option \<Rightarrow> error" where
  "GetAllFailed err = Error (''Failed to get all records: '' @ failure_message err)"

definition CountFailed :: "DOMException option \<Rightarrow> error" where
  "CountFailed err = Error (''Failed to count records: '' @ failure_message err)"

section \<open>Interfaces of the adapter\<close>

record StoreOptions =
  keyPath :: "string option"
  autoIncrement :: "bool option"

record IndexOptions =
  unique :: "bool option"
  multiEntry :: "bool option"

section \<open>The storage engine\<close>

text \<open>
  The adapter drives the browser's storage engine, which is not part of the repository.
  The definitions of this section describe the engine as far as the adapter observes it:
  the databases with their stores, index declarations and records, the one upgrade
  transaction that may be live, the connections that were closed, and the list of calls
  the adapter has made. Each call is taken to complete at once: a request delivers its
  one notification before the next call. Index constraints, the engine's checks of
  argument syntax (key paths, version numbers) and quota failures are outside this
  description.
\<close>

text \<open>Modelled from the spec: an index, a lookup structure over a store keyed by a
  field path, with its uniqueness and multi-entry modifiers.\<close>

record index_declaration =
  index_keyPath :: string
  index_unique :: bool
  index_multiEntry :: bool

text \<open>Modelled from the spec: a store, a named collection of records with the
  configuration fixed at its creation (an optional key path, the auto-increment flag),
  the next generated key, its indexes and its records by key.\<close>

record object_store =
  store_keyPath :: "string option"
  store_autoIncrement :: bool
  store_generator :: int
  store_indexes :: "string \<rightharpoonup> index_declaration"
  store_records :: "(IDBKey \<times> jsval) list"

text \<open>Modelled from the spec: the objects the engine hands to the adapter: a database
  reference (a connection to a named database), a transaction with its store names and
  mode, and a transaction-scoped store accessor.\<close>

datatype IDBTransactionMode = readonly | readwrite | versionchange

record IDBDatabase =
  connection_id :: nat
  connection_name :: string

record IDBTransaction =
  transaction_id :: nat
  transaction_db :: IDBDatabase
  transaction_scope :: "string list"
  transaction_mode :: IDBTransactionMode

record IDBObjectStore =
  objectStore_transaction :: IDBTransaction
  objectStore_name :: string

text \<open>The calls the engine receives from the adapter.\<close>

datatype store_request =
  Request_add jsval | Request_get IDBKey | Request_put jsval | Request_delete IDBKey
  | Request_clear | Request_getAll | Request_count

datatype engine_call =
  Call_open string int
  | Call_createObjectStore string "string option" bool
  | Call_transaction "string list" IDBTransactionMode
  | Call_objectStore string
  | Call_createIndex string string bool bool
  | Call_request store_request
  | Call_close

text \<open>Modelled from the spec: the host environment: whether it exposes the storage
  capability, the databases by name, the live upgrade transaction, the closed
  connections, the next object number, the calls received so far, and the diagnostic
  text the browser attaches to each exception.\<close>

record host =
  indexedDB_in_self :: bool
  databases :: "string \<Rightarrow> string \<rightharpoonup> object_store"
  upgrading :: "IDBTransaction option"
  closed :: "nat list"
  fresh :: nat
  calls :: "engine_call list"
  diagnostic :: "exception_name \<Rightarrow> string"

text \<open>Modelled from the spec: the engine raising one of its exceptions, with the
  diagnostic text of the host browser.\<close>

definition raise :: "exception_name \<Rightarrow> host \<Rightarrow> DOMException" where
  "raise n e = DOMException n (diagnostic e n)"

text \<open>The engine notes each call it receives.\<close>

definition called :: "engine_call \<Rightarrow> host \<Rightarrow> host" where
  "called c e = e\<lparr>calls := calls e @ [c]\<rparr>"

text \<open>Modelled from the spec: \<^verbatim>\<open>db.objectStoreNames.contains(name)\<close>, the stores the
  connected database has.\<close>

definition objectStoreNames_contains :: "IDBDatabase \<Rightarrow> string \<Rightarrow> host \<Rightarrow> bool" where
  "objectStoreNames_contains d storeName e =
     (databases e (connection_name d) storeName \<noteq> None)"

text \<open>Modelled from the spec: \<^verbatim>\<open>db.createObjectStore(name, {keyPath, autoIncrement})\<close>,
  a declaration call available only through the live upgrade transaction of the
  connection; it throws for an engine-level constraint violation.\<close>

definition createObjectStore ::
  "IDBDatabase \<Rightarrow> string \<Rightarrow> string option \<Rightarrow> bool \<Rightarrow> host \<Rightarrow> (DOMException + unit) \<times> host" where
  "createObjectStore d storeName kp ai e0 =
     (let e = called (Call_createObjectStore storeName kp ai) e0 in
      if (case upgrading e of None \<Rightarrow> True | Some tx \<Rightarrow> transaction_db tx \<noteq> d)
      then (Inl (raise InvalidStateError e), e)
      else if databases e (connection_name d) storeName \<noteq> None
      then (Inl (raise ConstraintError e), e)
      else if ai \<and> kp = Some []
      then (Inl (raise InvalidAccessError e), e)
      else (Inr (),
            e\<lparr>databases := (databases e)
                 (connection_name d := (databases e (connection_name d))
                    (storeName \<mapsto> \<lparr>store_keyPath = kp, store_autoIncrement = ai,
                                   store_generator = 1, store_indexes = Map.empty,
                                   store_records = []\<rparr>))\<rparr>))"

text \<open>Modelled from the spec: \<^verbatim>\<open>transaction.objectStore(name)\<close>, the store accessor of
  a transaction. A finished upgrade transaction gives none.\<close>

definition objectStore ::
  "IDBTransaction \<Rightarrow> string \<Rightarrow> host \<Rightarrow> (DOMException + IDBObjectStore) \<times> host" where
  "objectStore tx storeName e0 =
     (let e = called (Call_objectStore storeName) e0 in
      if transaction_mode tx = versionchange \<and> upgrading e \<noteq> Some tx
      then (Inl (raise InvalidStateError e), e)
      else if databases e (connection_name (transaction_db tx)) storeName = None
              \<or> (transaction_mode tx \<noteq> versionchange \<and> storeName \<notin> set (transaction_scope tx))
      then (Inl (raise NotFoundError e), e)
      else (Inr \<lparr>objectStore_transaction = tx, objectStore_name = storeName\<rparr>, e))"

text \<open>Modelled from the spec: the object store of the database that an accessor
  refers to.\<close>

definition store_of :: "IDBObjectStore \<Rightarrow> host \<Rightarrow> object_store option" where
  "store_of os e =
     databases e (connection_name (transaction_db (objectStore_transaction os)))
       (objectStore_name os)"

text \<open>Modelled from the spec: replacing the object store an accessor refers to.\<close>

definition store_update :: "IDBObjectStore \<Rightarrow> object_store \<Rightarrow> host \<Rightarrow> host" where
  "store_update os st e =
     (let n = connection_name (transaction_db (objectStore_transaction os)) in
      e\<lparr>databases := (databases e)(n := (databases e n)(objectStore_name os \<mapsto> st))\<rparr>)"

text \<open>Modelled from the spec: \<^verbatim>\<open>objectStore.indexNames.contains(name)\<close>.\<close>

definition indexNames_contains :: "IDBObjectStore \<Rightarrow> string \<Rightarrow> host \<Rightarrow> bool" where
  "indexNames_contains os indexName e =
     (case store_of os e of
        None \<Rightarrow> False
      | Some st \<Rightarrow> store_indexes st indexName \<noteq> None)"

text \<open>Modelled from the spec: \<^verbatim>\<open>objectStore.createIndex(name, keyPath, {unique, multiEntry})\<close>,
  the index declaration call of a store reached through the live upgrade transaction.\<close>

definition createIndex_call ::
  "IDBObjectStore \<Rightarrow> string \<Rightarrow> string \<Rightarrow> bool \<Rightarrow> bool \<Rightarrow> host \<Rightarrow> (DOMException + unit) \<times> host" where
  "createIndex_call os indexName kp u m e0 =
     (let e = called (Call_createIndex indexName kp u m) e0 in
      if transaction_mode (objectStore_transaction os) \<noteq> versionchange
      then (Inl (raise InvalidStateError e), e)
      else case store_of os e of
        None \<Rightarrow> (Inl (raise InvalidStateError e), e)
      | Some st \<Rightarrow>
          if upgrading e \<noteq> Some (objectStore_transaction os)
          then (Inl (raise TransactionInactiveError e), e)
          else if store_indexes st indexName \<noteq> None
          then (Inl (raise ConstraintError e), e)
          else (Inr (),
                store_update os
                  (st\<lparr>store_indexes := (store_indexes st)
                        (indexName \<mapsto> \<lparr>index_keyPath = kp, index_unique = u,
                                       index_multiEntry = m\<rparr>)\<rparr>) e))"

subsection \<open>Keys and key paths\<close>

text \<open>Modelled from the spec: the keys of records. The engine takes numbers and strings
  as keys.\<close>

fun valid_key :: "jsval \<Rightarrow> bool" where
  "valid_key (JNumber n) = True"
| "valid_key (JString s) = True"
| "valid_key v = False"

text \<open>Modelled from the spec: a key path is a field name within stored records, or
  field names separated by periods, read from the outermost object inwards. A field
  that is absent or \<open>undefined\<close> gives no key.\<close>

fun split_dots :: "string \<Rightarrow> string list" where
  "split_dots [] = [[]]"
| "split_dots (c # cs) =
     (if c = CHR ''.'' then [] # split_dots cs
      else (case split_dots cs of [] \<Rightarrow> [[c]] | p # ps \<Rightarrow> (c # p) # ps))"

fun evaluate_path :: "string list \<Rightarrow> jsval \<Rightarrow> jsval option" where
  "evaluate_path [] v = Some v"
| "evaluate_path (f # fs) v =
     (case v of
        JObject props \<Rightarrow>
          (case map_of props f of
             None \<Rightarrow> None
           | Some x \<Rightarrow> if x = JUndefined then None else evaluate_path fs x)
      | _ \<Rightarrow> None)"

text \<open>Modelled from the spec: the key that a key path derives from a record; the empty
  key path stands for the record itself.\<close>

definition evaluate_keyPath :: "string \<Rightarrow> jsval \<Rightarrow> jsval option" where
  "evaluate_keyPath kp v = (if kp = [] then Some v else evaluate_path (split_dots kp) v)"

text \<open>Modelled from the spec: assigning a field of an object.\<close>

fun set_field :: "string \<Rightarrow> jsval \<Rightarrow> (string \<times> jsval) list \<Rightarrow> (string \<times> jsval) list" where
  "set_field f x [] = [(f, x)]"
| "set_field f x ((g, y) # props) =
     (if f = g then (f, x) # props else (g, y) # set_field f x props)"

text \<open>Modelled from the spec: storing a generated key into a record at the key path;
  \<open>None\<close> when the record has no place for it.\<close>

fun inject_path :: "string list \<Rightarrow> jsval \<Rightarrow> jsval \<Rightarrow> jsval option" where
  "inject_path [] k v = None"
| "inject_path [f] k v =
     (case v of JObject props \<Rightarrow> Some (JObject (set_field f k props)) | _ \<Rightarrow> None)"
| "inject_path (f # g # fs) k v =
     (case v of
        JObject props \<Rightarrow>
          (case inject_path (g # fs) k
                  (case map_of props f of None \<Rightarrow> JObject [] | Some sub \<Rightarrow> sub) of
             None \<Rightarrow> None
           | Some sub' \<Rightarrow> Some (JObject (set_field f sub' props)))
      | _ \<Rightarrow> None)"

text \<open>Modelled from the spec: the records of a store, one per key: storing a record
  under a key, and removing the record of a key.\<close>

fun record_put :: "IDBKey \<Rightarrow> jsval \<Rightarrow> (IDBKey \<times> jsval) list \<Rightarrow> (IDBKey \<times> jsval) list" where
  "record_put k v [] = [(k, v)]"
| "record_put k v ((k', v') # rs) =
     (if k = k' then (k, v) # rs else (k', v') # record_put k v rs)"

fun record_delete :: "IDBKey \<Rightarrow> (IDBKey \<times> jsval) list \<Rightarrow> (IDBKey \<times> jsval) list" where
  "record_delete k [] = []"
| "record_delete k ((k', v') # rs) =
     (if k = k' then record_delete k rs else (k', v') # record_delete k rs)"

text \<open>Modelled from the spec: the key under which a store files a value handed to
  \<open>add\<close> or \<open>put\<close> without an explicit key: the value at the key path, or the next
  generated number of an auto-increment store. The result is the key, the value as
  stored and the next generator value; \<open>None\<close> when no key can be derived.\<close>

definition store_key :: "object_store \<Rightarrow> jsval \<Rightarrow> (IDBKey \<times> jsval \<times> int) option" where
  "store_key st v =
     (case store_keyPath st of
        None \<Rightarrow>
          if store_autoIncrement st
          then Some (JNumber (store_generator st), v, store_generator st + 1)
          else None
      | Some kp \<Rightarrow>
          (case evaluate_keyPath kp v of
             Some k \<Rightarrow>
               if valid_key k
               then Some (k, v,
                     (case k of
                        JNumber n \<Rightarrow>
                          if store_autoIncrement st \<and> store_generator st \<le> n then n + 1
                          else store_generator st
                      | _ \<Rightarrow> store_generator st))
               else None
           | None \<Rightarrow>
               if store_autoIncrement st
               then (case inject_path (split_dots kp) (JNumber (store_generator st)) v of
                       None \<Rightarrow> None
                     | Some v' \<Rightarrow> Some (JNumber (store_generator st), v', store_generator st + 1))
               else None))"

subsection \<open>Transactions and requests\<close>

text \<open>Modelled from the spec: \<^verbatim>\<open>db.transaction(storeNames, mode)\<close>, the per-store
  transaction call. It is refused while the upgrade transaction of the connection is
  live, on a closed connection, and for a store the database does not have.\<close>

definition transaction ::
  "IDBDatabase \<Rightarrow> string list \<Rightarrow> IDBTransactionMode \<Rightarrow> host
     \<Rightarrow> (DOMException + IDBTransaction) \<times> host" where
  "transaction d storeNames mode e0 =
     (let e = called (Call_transaction storeNames mode) e0 in
      if (case upgrading e of None \<Rightarrow> False | Some tx \<Rightarrow> transaction_db tx = d)
      then (Inl (raise InvalidStateError e), e)
      else if connection_id d \<in> set (closed e)
      then (Inl (raise InvalidStateError e), e)
      else if list_ex (\<lambda>n. databases e (connection_name d) n = None) storeNames
      then (Inl (raise NotFoundError e), e)
      else if storeNames = []
      then (Inl (raise InvalidAccessError e), e)
      else (Inr \<lparr>transaction_id = fresh e, transaction_db = d,
                 transaction_scope = storeNames, transaction_mode = mode\<rparr>,
            e\<lparr>fresh := Suc (fresh e)\<rparr>))"

text \<open>Modelled from the spec: the condition under which the engine starts a transaction
  on one store of a connection.\<close>

definition transaction_accepted :: "IDBDatabase \<Rightarrow> string \<Rightarrow> host \<Rightarrow> bool" where
  "transaction_accepted d storeName e =
     ((case upgrading e of None \<Rightarrow> True | Some tx \<Rightarrow> transaction_db tx \<noteq> d)
      \<and> connection_id d \<notin> set (closed e)
      \<and> databases e (connection_name d) storeName \<noteq> None)"

text \<open>Modelled from the spec: the store accessor that an accepted transaction on one
  store yields, and the engine after the two calls that lead to it.\<close>

definition store_accessor :: "IDBDatabase \<Rightarrow> string \<Rightarrow> IDBTransactionMode \<Rightarrow> host \<Rightarrow> IDBObjectStore" where
  "store_accessor d storeName mode e =
     \<lparr>objectStore_transaction =
        \<lparr>transaction_id = fresh e, transaction_db = d,
         transaction_scope = [storeName], transaction_mode = mode\<rparr>,
      objectStore_name = storeName\<rparr>"

definition with_accessor :: "string \<Rightarrow> IDBTransactionMode \<Rightarrow> host \<Rightarrow> host" where
  "with_accessor storeName mode e =
     called (Call_objectStore storeName)
       ((called (Call_transaction [storeName] mode) e)\<lparr>fresh := Suc (fresh e)\<rparr>)"

text \<open>Modelled from the spec: a store accessor call either throws at once or returns a
  request that delivers exactly one success or error notification.\<close>

datatype 'a completion = Throws DOMException | Fires_error "DOMException option" | Fires_success 'a

text \<open>Modelled from the spec: \<open>add\<close> inserts a new record; it fails, by an error
  notification, if a record with the derived key already exists.\<close>

definition store_add :: "IDBObjectStore \<Rightarrow> jsval \<Rightarrow> host \<Rightarrow> IDBKey completion \<times> host" where
  "store_add os v e0 =
     (let e = called (Call_request (Request_add v)) e0 in
      if transaction_mode (objectStore_transaction os) = readonly
      then (Throws (raise ReadOnlyError e), e)
      else case store_of os e of
        None \<Rightarrow> (Throws (raise InvalidStateError e), e)
      | Some st \<Rightarrow>
          (case store_key st v of
             None \<Rightarrow> (Throws (raise DataError e), e)
           | Some (k, v', g) \<Rightarrow>
               if map_of (store_records st) k \<noteq> None
               then (Fires_error (Some (raise ConstraintError e)), e)
               else (Fires_success k,
                     store_update os
                       (st\<lparr>store_records := record_put k v' (store_records st),
                           store_generator := g\<rparr>) e)))"

text \<open>Modelled from the spec: \<open>put\<close> inserts or overwrites.\<close>

definition store_put :: "IDBObjectStore \<Rightarrow> jsval \<Rightarrow> host \<Rightarrow> IDBKey completion \<times> host" where
  "store_put os v e0 =
     (let e = called (Call_request (Request_put v)) e0 in
      if transaction_mode (objectStore_transaction os) = readonly
      then (Throws (raise ReadOnlyError e), e)
      else case store_of os e of
        None \<Rightarrow> (Throws (raise InvalidStateError e), e)
      | Some st \<Rightarrow>
          (case store_key st v of
             None \<Rightarrow> (Throws (raise DataError e), e)
           | Some (k, v', g) \<Rightarrow>
               (Fires_success k,
                store_update os
                  (st\<lparr>store_records := record_put k v' (store_records st),
                      store_generator := g\<rparr>) e)))"

text \<open>Modelled from the spec: \<open>get\<close> gives the record matching the key, or
  \<open>undefined\<close> if there is none, which is a success.\<close>

definition store_get :: "IDBObjectStore \<Rightarrow> IDBKey \<Rightarrow> host \<Rightarrow> jsval completion \<times> host" where
  "store_get os k e0 =
     (let e = called (Call_request (Request_get k)) e0 in
      case store_of os e of
        None \<Rightarrow> (Throws (raise InvalidStateError e), e)
      | Some st \<Rightarrow>
          if \<not> valid_key k then (Throws (raise DataError e), e)
          else (Fires_success
                  (case map_of (store_records st) k of None \<Rightarrow> JUndefined | Some v \<Rightarrow> v), e))"

text \<open>Modelled from the spec: \<open>delete\<close> removes the record at the key; an absent key
  is a success.\<close>

definition store_delete :: "IDBObjectStore \<Rightarrow> IDBKey \<Rightarrow> host \<Rightarrow> unit completion \<times> host" where
  "store_delete os k e0 =
     (let e = called (Call_request (Request_delete k)) e0 in
      if transaction_mode (objectStore_transaction os) = readonly
      then (Throws (raise ReadOnlyError e), e)
      else case store_of os e of
        None \<Rightarrow> (Throws (raise InvalidStateError e), e)
      | Some st \<Rightarrow>
          if \<not> valid_key k then (Throws (raise DataError e), e)
          else (Fires_success (),
                store_update os (st\<lparr>store_records := record_delete k (store_records st)\<rparr>) e))"

text \<open>Modelled from the spec: \<open>clear\<close> removes all records of the store.\<close>

definition store_clear :: "IDBObjectStore \<Rightarrow> host \<Rightarrow> unit completion \<times> host" where
  "store_clear os e0 =
     (let e = called (Call_request Request_clear) e0 in
      if transaction_mode (objectStore_transaction os) = readonly
      then (Throws (raise ReadOnlyError e), e)
      else case store_of os e of
        None \<Rightarrow> (Throws (raise InvalidStateError e), e)
      | Some st \<Rightarrow> (Fires_success (), store_update os (st\<lparr>store_records := []\<rparr>) e))"

text \<open>Modelled from the spec: \<open>getAll\<close> gives all records of the store, in the
  engine's order.\<close>

definition store_getAll :: "IDBObjectStore \<Rightarrow> host \<Rightarrow> jsval list completion \<times> host" where
  "store_getAll os e0 =
     (let e = called (Call_request Request_getAll) e0 in
      case store_of os e of
        None \<Rightarrow> (Throws (raise InvalidStateError e), e)
      | Some st \<Rightarrow> (Fires_success (map snd (store_records st)), e))"

text \<open>Modelled from the spec: \<open>count\<close> gives the number of records of the store.\<close>

definition store_count :: "IDBObjectStore \<Rightarrow> host \<Rightarrow> nat completion \<times> host" where
  "store_count os e0 =
     (let e = called (Call_request Request_count) e0 in
      case store_of os e of
        None \<Rightarrow> (Throws (raise InvalidStateError e), e)
      | Some st \<Rightarrow> (Fires_success (length (store_records st)), e))"

text \<open>Modelled from the spec: \<^verbatim>\<open>db.close()\<close>, the engine-level close of a connection.
  It never throws.\<close>

definition close_connection :: "IDBDatabase \<Rightarrow> host \<Rightarrow> host" where
  "close_connection d e0 =
     (let e = called Call_close e0 in e\<lparr>closed := connection_id d # closed e\<rparr>)"

text \<open>Modelled from the spec: \<^verbatim>\<open>indexedDB.open(name, version)\<close>, the open call. It only
  creates the request; the engine reports on it later.\<close>

definition indexedDB_open :: "string \<Rightarrow> int \<Rightarrow> host \<Rightarrow> host" where
  "indexedDB_open dbName version e = called (Call_open dbName version) e"

section \<open>The connection handle\<close>

record SimpleIDB =
  db :: "IDBDatabase option"
  upgradeTransaction :: "IDBTransaction option"

text \<open>The handle together with the engine it drives.\<close>

record world =
  handle :: SimpleIDB
  host :: host

subsection \<open>Schema operations\<close>

definition createStore :: "string \<Rightarrow> StoreOptions option \<Rightarrow> world \<Rightarrow> (error + unit) \<times> world" where
  "createStore storeName options w =
     (case db (handle w) of
        None \<Rightarrow> (Inl NotOpen, w)
      | Some d \<Rightarrow>
          if objectStoreNames_contains d storeName (host w) then (Inr (), w)
          else
            (case createObjectStore d storeName
                    (Option.bind options keyPath)
                    (case Option.bind options autoIncrement of None \<Rightarrow> False | Some b \<Rightarrow> b)
                    (host w) of
               (Inl ex, e) \<Rightarrow> (Inl (Thrown ex), w\<lparr>host := e\<rparr>)
             | (Inr u, e) \<Rightarrow> (Inr (), w\<lparr>host := e\<rparr>)))"

definition createIndex ::
  "string \<Rightarrow> string \<Rightarrow> string \<Rightarrow> IndexOptions option \<Rightarrow> world \<Rightarrow> (error + unit) \<times> world" where
  "createIndex storeName indexName kp options w =
     (case db (handle w) of
        None \<Rightarrow> (Inl NotOpen, w)
      | Some d \<Rightarrow>
          if \<not> objectStoreNames_contains d storeName (host w)
          then (Inl (StoreNotFound storeName), w)
          else
            (case upgradeTransaction (handle w) of
               None \<Rightarrow> (Inl IndexCreationOutsideUpgrade, w)
             | Some tx \<Rightarrow>
                 (case objectStore tx storeName (host w) of
                    (Inl ex, e) \<Rightarrow> (Inl (Thrown ex), w\<lparr>host := e\<rparr>)
                  | (Inr os, e) \<Rightarrow>
                      if indexNames_contains os indexName e then (Inr (), w\<lparr>host := e\<rparr>)
                      else
                        (case createIndex_call os indexName kp
                                (case Option.bind options unique of None \<Rightarrow> False | Some b \<Rightarrow> b)
                                (case Option.bind options multiEntry of None \<Rightarrow> False | Some b \<Rightarrow> b)
                                e of
                           (Inl ex, e') \<Rightarrow> (Inl (Thrown ex), w\<lparr>host := e'\<rparr>)
                         | (Inr u, e') \<Rightarrow> (Inr (), w\<lparr>host := e'\<rparr>)))))"

subsection \<open>Data operations\<close>

text \<open>
  Each data operation returns a promise. The model gives the value the promise settles
  with: \<open>Inl\<close> for a rejection, \<open>Inr\<close> for the resolved value. An exception thrown
  inside the promise executor rejects the promise with that exception.
\<close>

definition add :: "string \<Rightarrow> jsval \<Rightarrow> world \<Rightarrow> (error + unit) \<times> world" where
  "add storeName data w =
     (case db (handle w) of
        None \<Rightarrow> (Inl NotOpen, w)
      | Some d \<Rightarrow>
          (case transaction d [storeName] readwrite (host w) of
             (Inl ex, e1) \<Rightarrow> (Inl (Thrown ex), w\<lparr>host := e1\<rparr>)
           | (Inr tx, e1) \<Rightarrow>
               (case objectStore tx storeName e1 of
                  (Inl ex, e2) \<Rightarrow> (Inl (Thrown ex), w\<lparr>host := e2\<rparr>)
                | (Inr store, e2) \<Rightarrow>
                    (case store_add store data e2 of
                       (Throws ex, e3) \<Rightarrow> (Inl (Thrown ex), w\<lparr>host := e3\<rparr>)
                     | (Fires_error err, e3) \<Rightarrow> (Inl (AddFailed err), w\<lparr>host := e3\<rparr>)
                     | (Fires_success r, e3) \<Rightarrow> (Inr (), w\<lparr>host := e3\<rparr>)))))"

definition get :: "string \<Rightarrow> IDBKey \<Rightarrow> world \<Rightarrow> (error + jsval) \<times> world" where
  "get storeName key w =
     (case db (handle w) of
        None \<Rightarrow> (Inl NotOpen, w)
      | Some d \<Rightarrow>
          (case transaction d [storeName] readonly (host w) of
             (Inl ex, e1) \<Rightarrow> (Inl (Thrown ex), w\<lparr>host := e1\<rparr>)
           | (Inr tx, e1) \<Rightarrow>
               (case objectStore tx storeName e1 of
                  (Inl ex, e2) \<Rightarrow> (Inl (Thrown ex), w\<lparr>host := e2\<rparr>)
                | (Inr store, e2) \<Rightarrow>
                    (case store_get store key e2 of
                       (Throws ex, e3) \<Rightarrow> (Inl (Thrown ex), w\<lparr>host := e3\<rparr>)
                     | (Fires_error err, e3) \<Rightarrow> (Inl (GetFailed err), w\<lparr>host := e3\<rparr>)
                     | (Fires_success r, e3) \<Rightarrow> (Inr r, w\<lparr>host := e3\<rparr>)))))"

definition put :: "string \<Rightarrow> jsval \<Rightarrow> world \<Rightarrow> (error + unit) \<times> world" where
  "put storeName data w =
     (case db (handle w) of
        None \<Rightarrow> (Inl NotOpen, w)
      | Some d \<Rightarrow>
          (case transaction d [storeName] readwrite (host w) of
             (Inl ex, e1) \<Rightarrow> (Inl (Thrown ex), w\<lparr>host := e1\<rparr>)
           | (Inr tx, e1) \<Rightarrow>
               (case objectStore tx storeName e1 of
                  (Inl ex, e2) \<Rightarrow> (Inl (Thrown ex), w\<lparr>host := e2\<rparr>)
                | (Inr store, e2) \<Rightarrow>
                    (case store_put store data e2 of
                       (Throws ex, e3) \<Rightarrow> (Inl (Thrown ex), w\<lparr>host := e3\<rparr>)
                     | (Fires_error err, e3) \<Rightarrow> (Inl (PutFailed err), w\<lparr>host := e3\<rparr>)
                     | (Fires_success r, e3) \<Rightarrow> (Inr (), w\<lparr>host := e3\<rparr>)))))"

definition delete :: "string \<Rightarrow> IDBKey \<Rightarrow> world \<Rightarrow> (error + unit) \<times> world" where
  "delete storeName key w =
     (case db (handle w) of
        None \<Rightarrow> (Inl NotOpen, w)
      | Some d \<Rightarrow>
          (case transaction d [storeName] readwrite (host w) of
             (Inl ex, e1) \<Rightarrow> (Inl (Thrown ex), w\<lparr>host := e1\<rparr>)
           | (Inr tx, e1) \<Rightarrow>
               (case objectStore tx storeName e1 of
                  (Inl ex, e2) \<Rightarrow> (Inl (Thrown ex), w\<lparr>host := e2\<rparr>)
                | (Inr store, e2) \<Rightarrow>
                    (case store_delete store key e2 of
                       (Throws ex, e3) \<Rightarrow> (Inl (Thrown ex), w\<lparr>host := e3\<rparr>)
                     | (Fires_error err, e3) \<Rightarrow> (Inl (DeleteFailed err), w\<lparr>host := e3\<rparr>)
                     | (Fires_success r, e3) \<Rightarrow> (Inr (), w\<lparr>host := e3\<rparr>)))))"

definition clear :: "string \<Rightarrow> world \<Rightarrow> (error + unit) \<times> world" where
  "clear storeName w =
     (case db (handle w) of
        None \<Rightarrow> (Inl NotOpen, w)
      | Some d \<Rightarrow>
          (case transaction d [storeName] readwrite (host w) of
             (Inl ex, e1) \<Rightarrow> (Inl (Thrown ex), w\<lparr>host := e1\<rparr>)
           | (Inr tx, e1) \<Rightarrow>
               (case objectStore tx storeName e1 of
                  (Inl ex, e2) \<Rightarrow> (Inl (Thrown ex), w\<lparr>host := e2\<rparr>)
                | (Inr store, e2) \<Rightarrow>
                    (case store_clear store e2 of
                       (Throws ex, e3) \<Rightarrow> (Inl (Thrown ex), w\<lparr>host := e3\<rparr>)
                     | (Fires_error err, e3) \<Rightarrow> (Inl (ClearFailed err), w\<lparr>host := e3\<rparr>)
                     | (Fires_success r, e3) \<Rightarrow> (Inr (), w\<lparr>host := e3\<rparr>)))))"

definition getAll :: "string \<Rightarrow> world \<Rightarrow> (error + jsval list) \<times> world" where
  "getAll storeName w =
     (case db (handle w) of
        None \<Rightarrow> (Inl NotOpen, w)
      | Some d \<Rightarrow>
          (case transaction d [storeName] readonly (host w) of
             (Inl ex, e1) \<Rightarrow> (Inl (Thrown ex), w\<lparr>host := e1\<rparr>)
           | (Inr tx, e1) \<Rightarrow>
               (case objectStore tx storeName e1 of
                  (Inl ex, e2) \<Rightarrow> (Inl (Thrown ex), w\<lparr>host := e2\<rparr>)
                | (Inr store, e2) \<Rightarrow>
                    (case store_getAll store e2 of
                       (Throws ex, e3) \<Rightarrow> (Inl (Thrown ex), w\<lparr>host := e3\<rparr>)
                     | (Fires_error err, e3) \<Rightarrow> (Inl (GetAllFailed err), w\<lparr>host := e3\<rparr>)
                     | (Fires_success r, e3) \<Rightarrow> (Inr r, w\<lparr>host := e3\<rparr>)))))"

definition count :: "string \<Rightarrow> world \<Rightarrow> (error + nat) \<times> world" where
  "count storeName w =
     (case db (handle w) of
        None \<Rightarrow> (Inl NotOpen, w)
      | Some d \<Rightarrow>
          (case transaction d [storeName] readonly (host w) of
             (Inl ex, e1) \<Rightarrow> (Inl (Thrown ex), w\<lparr>host := e1\<rparr>)
           | (Inr tx, e1) \<Rightarrow>
               (case objectStore tx storeName e1 of
                  (Inl ex, e2) \<Rightarrow> (Inl (Thrown ex), w\<lparr>host := e2\<rparr>)
                | (Inr store, e2) \<Rightarrow>
                    (case store_count store e2 of
                       (Throws ex, e3) \<Rightarrow> (Inl (Thrown ex), w\<lparr>host := e3\<rparr>)
                     | (Fires_error err, e3) \<Rightarrow> (Inl (CountFailed err), w\<lparr>host := e3\<rparr>)
                     | (Fires_success r, e3) \<Rightarrow> (Inr r, w\<lparr>host := e3\<rparr>)))))"

subsection \<open>Closing\<close>

definition close :: "world \<Rightarrow> world" where
  "close w =
     (let e = (case db (handle w) of None \<Rightarrow> host w | Some d \<Rightarrow> close_connection d (host w))
      in w\<lparr>handle := (handle w)\<lparr>db := None\<rparr>, host := e\<rparr>)"

subsection \<open>Opening\<close>

text \<open>
  The upgrade callback is caller code run by the handle: it receives the database
  reference and acts on the handle and the engine; \<open>Some e\<close> in its result means that
  it terminated by throwing \<open>e\<close>.
\<close>

type_synonym UpgradeCallback = "IDBDatabase \<Rightarrow> world \<Rightarrow> error option \<times> world"

text \<open>What a handler of the open request reads from \<^verbatim>\<open>event.target\<close>.\<close>

record event_target =
  target_result :: IDBDatabase
  target_transaction :: "IDBTransaction option"

text \<open>An open request in flight: the arguments of the call, the callback its handlers
  have captured, what the engine has done for it so far, and the promise that
  \<open>open\<close> returned (\<open>None\<close> while pending).\<close>

record open_request =
  request_name :: string
  request_version :: int
  request_upgradeCallback :: "UpgradeCallback option"
  request_connection :: "IDBDatabase option"
  request_rollback :: "(string \<rightharpoonup> object_store) option"
  request_aborted :: bool
  promise :: "(error + unit) option"

record system =
  app :: world
  requests :: "open_request list"

text \<open>\<^verbatim>\<open>request.onerror\<close>: the value the promise is rejected with.\<close>

definition onerror :: "DOMException option \<Rightarrow> world \<Rightarrow> error \<times> world" where
  "onerror request_error w = (OpenFailed request_error, w)"

text \<open>\<^verbatim>\<open>request.onsuccess\<close>; the promise is resolved after it.\<close>

definition onsuccess :: "event_target \<Rightarrow> world \<Rightarrow> world" where
  "onsuccess request w =
     (let w1 = w\<lparr>handle := (handle w)\<lparr>db := Some (target_result request)\<rparr>\<rparr>
      in w1\<lparr>handle := (handle w1)\<lparr>upgradeTransaction := None\<rparr>\<rparr>)"

text \<open>\<^verbatim>\<open>request.onupgradeneeded\<close>, for the callback passed to \<open>open\<close>. An exception of
  the callback leaves the handler at once.\<close>

definition onupgradeneeded ::
  "UpgradeCallback option \<Rightarrow> event_target \<Rightarrow> world \<Rightarrow> error option \<times> world" where
  "onupgradeneeded upgradeCallback target w =
     (let w1 = w\<lparr>handle := (handle w)\<lparr>db := Some (target_result target)\<rparr>\<rparr>;
          w2 = w1\<lparr>handle := (handle w1)\<lparr>upgradeTransaction := target_transaction target\<rparr>\<rparr>
      in case upgradeCallback of
           None \<Rightarrow> (None, w2\<lparr>handle := (handle w2)\<lparr>upgradeTransaction := None\<rparr>\<rparr>)
         | Some cb \<Rightarrow>
             (case cb (target_result target) w2 of
                (Some ex, w3) \<Rightarrow> (Some ex, w3)
              | (None, w3) \<Rightarrow> (None, w3\<lparr>handle := (handle w3)\<lparr>upgradeTransaction := None\<rparr>\<rparr>)))"

text \<open>\<open>open\<close>: \<open>Inl\<close> is the promise rejected at once; \<open>Inr i\<close> is the pending
  promise of the request numbered \<open>i\<close>, settled when the engine reports on it.\<close>

definition "open" :: "string \<Rightarrow> int \<Rightarrow> UpgradeCallback option \<Rightarrow> system \<Rightarrow> (error + nat) \<times> system" where
  "open dbName version upgradeCallback sys =
     (if \<not> indexedDB_in_self (host (app sys)) then (Inl UnsupportedEnvironment, sys)
      else
        let e = indexedDB_open dbName version (host (app sys));
            request = \<lparr>request_name = dbName, request_version = version,
                       request_upgradeCallback = upgradeCallback,
                       request_connection = None, request_rollback = None,
                       request_aborted = False, promise = None\<rparr>
        in (Inr (length (requests sys)),
            sys\<lparr>app := (app sys)\<lparr>host := e\<rparr>, requests := requests sys @ [request]\<rparr>))"

subsection \<open>Notifications of the engine\<close>

text \<open>Modelled from the spec: the upgrade notification of a pending open request. The
  engine connects to the database, starts the upgrade transaction, runs the handler of
  the request and ends the transaction: committed when the handler returns, aborted
  (stores restored, connection closed) when it throws.\<close>

definition deliver_upgradeneeded :: "nat \<Rightarrow> system \<Rightarrow> system" where
  "deliver_upgradeneeded i sys =
     (if i < length (requests sys) \<and> promise (requests sys ! i) = None
         \<and> request_connection (requests sys ! i) = None
      then
        let r = requests sys ! i;
            e = host (app sys);
            conn = \<lparr>connection_id = fresh e, connection_name = request_name r\<rparr>;
            tx = \<lparr>transaction_id = Suc (fresh e), transaction_db = conn,
                  transaction_scope = [], transaction_mode = versionchange\<rparr>;
            w1 = (app sys)\<lparr>host := e\<lparr>fresh := Suc (Suc (fresh e)), upgrading := Some tx\<rparr>\<rparr>
        in case onupgradeneeded (request_upgradeCallback r)
                  \<lparr>target_result = conn, target_transaction = Some tx\<rparr> w1 of
             (None, w2) \<Rightarrow>
               sys\<lparr>app := w2\<lparr>host := (host w2)\<lparr>upgrading := None\<rparr>\<rparr>,
                   requests := (requests sys)
                     [i := r\<lparr>request_connection := Some conn,
                             request_rollback := Some (databases e (request_name r))\<rparr>]\<rparr>
           | (Some ex, w2) \<Rightarrow>
               sys\<lparr>app := w2\<lparr>host := (host w2)
                       \<lparr>upgrading := None,
                        databases := (databases (host w2))
                           (request_name r := databases e (request_name r)),
                        closed := connection_id conn # closed (host w2)\<rparr>\<rparr>,
                   requests := (requests sys)
                     [i := r\<lparr>request_connection := Some conn, request_aborted := True\<rparr>]\<rparr>
      else sys)"

text \<open>Modelled from the spec: the success notification of a pending open request,
  carrying the database reference; the promise resolves with no value.\<close>

definition deliver_success :: "nat \<Rightarrow> system \<Rightarrow> system" where
  "deliver_success i sys =
     (if i < length (requests sys) \<and> promise (requests sys ! i) = None
         \<and> \<not> request_aborted (requests sys ! i)
      then
        let r = requests sys ! i;
            e = host (app sys)
        in case request_connection r of
             Some conn \<Rightarrow>
               sys\<lparr>app := onsuccess \<lparr>target_result = conn, target_transaction = None\<rparr> (app sys),
                   requests := (requests sys)[i := r\<lparr>promise := Some (Inr ())\<rparr>]\<rparr>
           | None \<Rightarrow>
               let conn = \<lparr>connection_id = fresh e, connection_name = request_name r\<rparr>
               in sys\<lparr>app := onsuccess \<lparr>target_result = conn, target_transaction = None\<rparr>
                            ((app sys)\<lparr>host := e\<lparr>fresh := Suc (fresh e)\<rparr>\<rparr>),
                      requests := (requests sys)
                        [i := r\<lparr>request_connection := Some conn, promise := Some (Inr ())\<rparr>]\<rparr>
      else sys)"

text \<open>Modelled from the spec: the error notification of a pending open request, with
  the engine's diagnostic. An upgrade that had run is undone and its connection closed.\<close>

definition deliver_error :: "nat \<Rightarrow> DOMException \<Rightarrow> system \<Rightarrow> system" where
  "deliver_error i ex sys =
     (if i < length (requests sys) \<and> promise (requests sys ! i) = None
      then
        let r = requests sys ! i;
            e = host (app sys);
            e1 = (case (request_connection r, request_rollback r) of
                    (Some conn, Some stores) \<Rightarrow>
                      e\<lparr>databases := (databases e)(request_name r := stores),
                        closed := connection_id conn # closed e\<rparr>
                  | _ \<Rightarrow> e)
        in case onerror (Some ex) ((app sys)\<lparr>host := e1\<rparr>) of
             (err, w) \<Rightarrow>
               sys\<lparr>app := w, requests := (requests sys)[i := r\<lparr>promise := Some (Inl err)\<rparr>]\<rparr>
      else sys)"

section \<open>Histories\<close>

text \<open>What can happen to a handle: calls of the application and notifications of the
  engine, one after the other.\<close>

datatype action =
  Open string int "UpgradeCallback option"
  | UpgradeNeeded nat
  | Success nat
  | Failure nat DOMException
  | Close
  | CreateStore string "StoreOptions option"
  | CreateIndex string string string "IndexOptions option"
  | Add string jsval
  | Get string IDBKey
  | Put string jsval
  | Delete string IDBKey
  | Clear string
  | GetAll string
  | Count string

fun step :: "action \<Rightarrow> system \<Rightarrow> system" where
  "step (Open dbName version cb) sys = snd (open dbName version cb sys)"
| "step (UpgradeNeeded i) sys = deliver_upgradeneeded i sys"
| "step (Success i) sys = deliver_success i sys"
| "step (Failure i ex) sys = deliver_error i ex sys"
| "step Close sys = sys\<lparr>app := close (app sys)\<rparr>"
| "step (CreateStore storeName options) sys =
     sys\<lparr>app := snd (createStore storeName options (app sys))\<rparr>"
| "step (CreateIndex storeName indexName kp options) sys =
     sys\<lparr>app := snd (createIndex storeName indexName kp options (app sys))\<rparr>"
| "step (Add storeName data) sys = sys\<lparr>app := snd (add storeName data (app sys))\<rparr>"
| "step (Get storeName key) sys = sys\<lparr>app := snd (get storeName key (app sys))\<rparr>"
| "step (Put storeName data) sys = sys\<lparr>app := snd (put storeName data (app sys))\<rparr>"
| "step (Delete storeName key) sys = sys\<lparr>app := snd (delete storeName key (app sys))\<rparr>"
| "step (Clear storeName) sys = sys\<lparr>app := snd (clear storeName (app sys))\<rparr>"
| "step (GetAll storeName) sys = sys\<lparr>app := snd (getAll storeName (app sys))\<rparr>"
| "step (Count storeName) sys = sys\<lparr>app := snd (count storeName (app sys))\<rparr>"

fun run :: "action list \<Rightarrow> system \<Rightarrow> system" where
  "run [] sys = sys"
| "run (a # as) sys = run as (step a sys)"

text \<open>A newly constructed handle on a host.\<close>

definition new_SimpleIDB :: SimpleIDB where
  "new_SimpleIDB = \<lparr>db = None, upgradeTransaction = None\<rparr>"

definition start :: "host \<Rightarrow> system" where
  "start e = \<lparr>app = \<lparr>handle = new_SimpleIDB, host = e\<rparr>, requests = []\<rparr>"

text \<open>No promise returned by \<open>open\<close> has resolved.\<close>

definition no_open_succeeded :: "system \<Rightarrow> bool" where
  "no_open_succeeded sys = list_all (\<lambda>p. p \<noteq> Some (Inr ())) (map promise (requests sys))"

text \<open>An action other than a notification of the engine that carries a database
  reference.\<close>

fun without_database :: "action \<Rightarrow> bool" where
  "without_database (UpgradeNeeded i) = False"
| "without_database (Success i) = False"
| "without_database a = True"

text \<open>A browser with an empty storage engine, and one without the storage capability.\<close>

definition browser :: host where
  "browser = \<lparr>indexedDB_in_self = True, databases = (\<lambda>n. Map.empty), upgrading = None,
              closed = [], fresh = 0, calls = [], diagnostic = (\<lambda>n. ''engine diagnostic'')\<rparr>"

definition worker_without_storage :: host where
  "worker_without_storage = browser\<lparr>indexedDB_in_self := False\<rparr>"

section \<open>Scenarios\<close>

text \<open>Upgrade callbacks are written as sequences of schema calls: a call that throws
  ends the callback with its exception, as an uncaught exception does.\<close>

definition statement ::
  "(world \<Rightarrow> (error + unit) \<times> world) \<Rightarrow> (world \<Rightarrow> error option \<times> world)
     \<Rightarrow> world \<Rightarrow> error option \<times> world" where
  "statement call rest w =
     (case call w of (Inl e, w') \<Rightarrow> (Some e, w') | (Inr u, w') \<Rightarrow> rest w')"

definition returns :: "world \<Rightarrow> error option \<times> world" where
  "returns w = (None, w)"

definition throws :: "error \<Rightarrow> world \<Rightarrow> error option \<times> world" where
  "throws e w = (Some e, w)"

text \<open>\<^verbatim>\<open>() => { db.createStore('users', { keyPath: 'id' }); }\<close>\<close>

definition declare_users :: UpgradeCallback where
  "declare_users d =
     statement (createStore ''users'' (Some \<lparr>keyPath = Some ''id'', autoIncrement = None\<rparr>))
       returns"

text \<open>\<^verbatim>\<open>() => { throw new Error('migration failed'); }\<close>\<close>

definition failing_upgrade :: UpgradeCallback where
  "failing_upgrade d = throws (Error ''migration failed'')"

text \<open>The database \<open>shop\<close> opened at version 1 with a store \<open>users\<close> keyed by
  \<open>id\<close>.\<close>

definition shop :: system where
  "shop = run [Open ''shop'' 1 (Some declare_users), UpgradeNeeded 0, Success 0] (start browser)"

definition shop_connection :: IDBDatabase where
  "shop_connection = \<lparr>connection_id = 0, connection_name = ''shop''\<rparr>"

definition users_store :: object_store where
  "users_store = \<lparr>store_keyPath = Some ''id'', store_autoIncrement = False,
                   store_generator = 1, store_indexes = Map.empty, store_records = []\<rparr>"


text \<open>The world in which the upgrade callback of that first \<open>open\<close> starts: the
  handle holds the connection and the upgrade transaction, which is live in the engine.\<close>

definition shop_transaction :: IDBTransaction where
  "shop_transaction = \<lparr>transaction_id = 1, transaction_db = shop_connection,
                        transaction_scope = [], transaction_mode = versionchange\<rparr>"

definition shop_upgrade :: world where
  "shop_upgrade =
     \<lparr>handle = \<lparr>db = Some shop_connection, upgradeTransaction = Some shop_transaction\<rparr>,
      host = browser\<lparr>upgrading := Some shop_transaction, fresh := 2,
                     calls := [Call_open ''shop'' 1]\<rparr>\<rparr>"

text \<open>The same world after \<^verbatim>\<open>createStore('users', { keyPath: 'id' })\<close>, and then after
  \<^verbatim>\<open>createIndex('users', 'email', 'email', { unique: true })\<close>.\<close>

definition users_declared :: world where
  "users_declared =
     shop_upgrade\<lparr>host := (host shop_upgrade)
       \<lparr>databases := (\<lambda>n. Map.empty)(''shop'' := [''users'' \<mapsto> users_store]),
        calls := [Call_open ''shop'' 1, Call_createObjectStore ''users'' (Some ''id'') False]\<rparr>\<rparr>"

definition email_index :: index_declaration where
  "email_index = \<lparr>index_keyPath = ''email'', index_unique = True, index_multiEntry = False\<rparr>"

definition email_declared :: world where
  "email_declared =
     shop_upgrade\<lparr>host := (host shop_upgrade)
       \<lparr>databases := (\<lambda>n. Map.empty)
          (''shop'' := [''users'' \<mapsto> users_store\<lparr>store_indexes := [''email'' \<mapsto> email_index]\<rparr>]),
        calls := [Call_open ''shop'' 1, Call_createObjectStore ''users'' (Some ''id'') False,
                  Call_objectStore ''users'', Call_createIndex ''email'' ''email'' True False]\<rparr>\<rparr>"

text \<open>\<^verbatim>\<open>() => { db.createStore('orders', { autoIncrement: true }); }\<close>\<close>

definition declare_orders :: UpgradeCallback where
  "declare_orders d =
     statement (createStore ''orders'' (Some \<lparr>keyPath = None, autoIncrement = Some True\<rparr>))
       returns"

text \<open>Histories of a new handle in a browser: an open that is pending after its upgrade
  notification, and one that the engine then reports as failed.\<close>

definition pending_open :: system where
  "pending_open = run [Open ''shop'' 1 (Some declare_users), UpgradeNeeded 0] (start browser)"

definition failed_open :: system where
  "failed_open =
     run [Open ''shop'' 1 (Some declare_users), UpgradeNeeded 0,
          Failure 0 (DOMException AbortError ''quota exceeded'')] (start browser)"

text \<open>Histories of the opened \<open>shop\<close>: closed and opened again at version 2, up to the
  upgrade notification, with a callback that declares \<open>orders\<close> and with one that
  throws.\<close>

definition reopening :: system where
  "reopening = run [Close, Open ''shop'' 2 (Some declare_orders), UpgradeNeeded 1] shop"

definition failed_migration :: system where
  "failed_migration = run [Close, Open ''shop'' 2 (Some failing_upgrade), UpgradeNeeded 1] shop"

definition reopened_connection :: IDBDatabase where
  "reopened_connection = \<lparr>connection_id = 2, connection_name = ''shop''\<rparr>"

definition stale_transaction :: IDBTransaction where
  "stale_transaction = \<lparr>transaction_id = 3, transaction_db = reopened_connection,
                         transaction_scope = [], transaction_mode = versionchange\<rparr>"

text \<open>Histories without a notification that carries a database reference: an open
  that the engine rejects, and calls around it.\<close>

definition rejected_open :: "action list" where
  "rejected_open = [Open ''shop'' 1 (Some declare_users),
       Failure 0 (DOMException VersionError ''version too low''),
       Put ''users'' (JObject [(''id'', JNumber 1)]), Close, Open ''shop'' 2 None]"

definition closing_twice :: "action list" where
  "closing_twice = [Close, Open ''shop'' 2 (Some declare_orders), Get ''users'' (JNumber 1),
                    Failure 1 (DOMException VersionError ''version too low''), Close]"

text \<open>The engine calls of one data operation on a store: the transaction, the store
  accessor and the request.\<close>

definition engine_calls :: "string \<Rightarrow> IDBTransactionMode \<Rightarrow> store_request \<Rightarrow> engine_call list" where
  "engine_calls storeName mode request =
     [Call_transaction [storeName] mode, Call_objectStore storeName, Call_request request]"

text \<open>The records \<^verbatim>\<open>{ id: '1', name: 'John' }\<close>, \<^verbatim>\<open>{ id: '1', name: 'Jane' }\<close> and
  \<^verbatim>\<open>{ id: '2', name: 'Ann' }\<close>.\<close>

definition john :: jsval where
  "john = JObject [(''id'', JString ''1''), (''name'', JString ''John'')]"

definition jane :: jsval where
  "jane = JObject [(''id'', JString ''1''), (''name'', JString ''Jane'')]"

definition ann :: jsval where
  "ann = JObject [(''id'', JString ''2''), (''name'', JString ''Ann'')]"

text \<open>A data call that does not write the record with key \<open>k\<close> of the store
  \<open>storeName\<close>, whose key path is \<open>kp\<close>: a read, a call on another store, a deletion
  of another key, or an \<open>add\<close> or \<open>put\<close> of a record with another key at the key
  path.\<close>

fun leaves_key :: "string \<Rightarrow> string \<Rightarrow> IDBKey \<Rightarrow> action \<Rightarrow> bool" where
  "leaves_key storeName kp k (Get s key) = True"
| "leaves_key storeName kp k (GetAll s) = True"
| "leaves_key storeName kp k (Count s) = True"
| "leaves_key storeName kp k (Add s data) =
     (s \<noteq> storeName
      \<or> (case evaluate_keyPath kp data of None \<Rightarrow> False | Some k' \<Rightarrow> k' \<noteq> k))"
| "leaves_key storeName kp k (Put s data) =
     (s \<noteq> storeName
      \<or> (case evaluate_keyPath kp data of None \<Rightarrow> False | Some k' \<Rightarrow> k' \<noteq> k))"
| "leaves_key storeName kp k (Delete s key) = (s \<noteq> storeName \<or> key \<noteq> k)"
| "leaves_key storeName kp k (Clear s) = (s \<noteq> storeName)"
| "leaves_key storeName kp k a = False"

text \<open>The handle is open on a usable connection, and the store \<open>storeName\<close> of its
  database, with key path \<open>kp\<close>, holds the record \<open>v\<close> under the key \<open>k\<close>.\<close>

definition holds_record :: "IDBDatabase \<Rightarrow> string \<Rightarrow> string \<Rightarrow> IDBKey \<Rightarrow> jsval \<Rightarrow> world \<Rightarrow> bool" where
  "holds_record d storeName kp k v w =
     (db (handle w) = Some d \<and> transaction_accepted d storeName (host w) \<and> valid_key k
      \<and> (case databases (host w) (connection_name d) storeName of
            None \<Rightarrow> False
          | Some st \<Rightarrow> store_keyPath st = Some kp \<and> map_of (store_records st) k = Some v))"

text \<open>Data calls that leave the key \<open>'1'\<close> of \<open>users\<close> alone.\<close>

definition other_calls :: "action list" where
  "other_calls = [Put ''users'' ann, Count ''users'', Get ''users'' (JString ''1''),
                  Delete ''users'' (JString ''2''), Clear ''orders'', GetAll ''users'']"

section \<open>Facts about the error kinds\<close>

lemma kinds_distinct:
  "StoreNotFound s \<noteq> IndexCreationOutsideUpgrade"
  "StoreNotFound s \<noteq> NotOpen"
  "NotOpen \<noteq> IndexCreationOutsideUpgrade"
  "Thrown ex \<noteq> NotOpen"
  "Thrown ex \<noteq> IndexCreationOutsideUpgrade"
  by (simp_all add: NotOpen_def StoreNotFound_def IndexCreationOutsideUpgrade_def)

section \<open>The scenario worlds\<close>

lemmas scenario_defs =
  start_def browser_def new_SimpleIDB_def open_def indexedDB_open_def called_def
  deliver_upgradeneeded_def deliver_success_def deliver_error_def
  onupgradeneeded_def onsuccess_def onerror_def
  declare_users_def failing_upgrade_def statement_def returns_def throws_def
  createStore_def objectStoreNames_contains_def createObjectStore_def raise_def
  close_def close_connection_def shop_connection_def users_store_def Let_def

lemma app_shop:
  "app shop =
     \<lparr>handle = \<lparr>db = Some shop_connection, upgradeTransaction = None\<rparr>,
      host = browser
        \<lparr>databases := (\<lambda>n. Map.empty)(''shop'' := [''users'' \<mapsto> users_store]),
         fresh := 2,
         calls := [Call_open ''shop'' 1, Call_createObjectStore ''users'' (Some ''id'') False]\<rparr>\<rparr>"
  by (simp add: shop_def scenario_defs)

lemma shop_facts:
  "db (handle (app shop)) = Some shop_connection"
  "upgradeTransaction (handle (app shop)) = None"
  "objectStoreNames_contains shop_connection ''users'' (host (app shop))"
  "\<not> objectStoreNames_contains shop_connection ''orders'' (host (app shop))"
  "upgrading (host (app shop)) = None"
  "closed (host (app shop)) = []"
  by (simp_all add: app_shop objectStoreNames_contains_def shop_connection_def browser_def)

section \<open>createIndex\<close>

lemma createIndex_NotOpen:
  "db (handle w) = None \<Longrightarrow> createIndex storeName indexName kp options w = (Inl NotOpen, w)"
  by (simp add: createIndex_def)

lemma createIndex_StoreNotFound:
  "db (handle w) = Some d \<Longrightarrow> \<not> objectStoreNames_contains d storeName (host w) \<Longrightarrow>
   createIndex storeName indexName kp options w = (Inl (StoreNotFound storeName), w)"
  by (simp add: createIndex_def)

lemma createIndex_outside:
  "db (handle w) = Some d \<Longrightarrow> objectStoreNames_contains d storeName (host w) \<Longrightarrow>
   upgradeTransaction (handle w) = None \<Longrightarrow>
   createIndex storeName indexName kp options w = (Inl IndexCreationOutsideUpgrade, w)"
  by (simp add: createIndex_def)

text \<open>
  Claim C1, as the code has it: for every store name, a \<open>createIndex\<close> call made while
  the handle holds a database reference and no upgrade context is active fails with
  IndexCreationOutsideUpgrade when the named store exists, and with StoreNotFound when
  it does not. Nothing is changed by the call.
\<close>

theorem createIndex_outside_upgrade:
  assumes "db (handle w) = Some d" and "upgradeTransaction (handle w) = None"
  shows "createIndex storeName indexName kp options w =
           (Inl (if objectStoreNames_contains d storeName (host w)
                 then IndexCreationOutsideUpgrade else StoreNotFound storeName), w)"
  using assms by (simp add: createIndex_outside createIndex_StoreNotFound)

text \<open>The two cases on the opened \<open>shop\<close> database: \<open>users\<close> exists, \<open>orders\<close> does
  not.\<close>

theorem createIndex_outside_upgrade_witness:
  "createIndex ''users'' ''email'' ''email'' None (app shop)
     = (Inl IndexCreationOutsideUpgrade, app shop)
   \<and> createIndex ''orders'' ''email'' ''email'' None (app shop)
     = (Inl (StoreNotFound ''orders''), app shop)"
  using createIndex_outside_upgrade [of "app shop" shop_connection "''users''" "''email''" "''email''" None]
        createIndex_outside_upgrade [of "app shop" shop_connection "''orders''" "''email''" "''email''" None]
  by (simp add: shop_facts)

text \<open>Claim C1 as stated fails: outside an upgrade context, on an open handle, a
  \<open>createIndex\<close> call for a store that does not exist fails with StoreNotFound, not
  with IndexCreationOutsideUpgrade.\<close>

theorem createIndex_missing_store_outside_upgrade:
  "db (handle (app shop)) = Some shop_connection
   \<and> upgradeTransaction (handle (app shop)) = None
   \<and> fst (createIndex ''orders'' ''email'' ''email'' None (app shop))
       = Inl (StoreNotFound ''orders'')
   \<and> fst (createIndex ''orders'' ''email'' ''email'' None (app shop))
       \<noteq> Inl IndexCreationOutsideUpgrade"
  by (simp add: shop_facts createIndex_StoreNotFound kinds_distinct)

text \<open>
  Claim C10: \<open>createIndex\<close> checks its preconditions in a fixed order. Without a
  database reference it fails with NotOpen; with one, a store name the database does not
  have gives StoreNotFound whatever the upgrade context of the handle is; only for an
  existing store does a missing upgrade context give IndexCreationOutsideUpgrade.
\<close>

theorem createIndex_precondition_order:
  "(db (handle w) = None \<longrightarrow>
      createIndex storeName indexName kp options w = (Inl NotOpen, w))
   \<and> (db (handle w) = Some d \<and> \<not> objectStoreNames_contains d storeName (host w) \<longrightarrow>
      (\<forall>t. createIndex storeName indexName kp options
              (w\<lparr>handle := (handle w)\<lparr>upgradeTransaction := t\<rparr>\<rparr>)
            = (Inl (StoreNotFound storeName), w\<lparr>handle := (handle w)\<lparr>upgradeTransaction := t\<rparr>\<rparr>)))
   \<and> (db (handle w) = Some d \<and> objectStoreNames_contains d storeName (host w)
        \<and> upgradeTransaction (handle w) = None \<longrightarrow>
      createIndex storeName indexName kp options w = (Inl IndexCreationOutsideUpgrade, w))"
  by (simp add: createIndex_NotOpen createIndex_StoreNotFound createIndex_outside)

text \<open>The three cases: a new handle, and the opened \<open>shop\<close> database with the missing
  store \<open>orders\<close> and the existing store \<open>users\<close>.\<close>

theorem createIndex_precondition_order_witness:
  "createIndex ''users'' ''email'' ''email'' None (app (start browser))
     = (Inl NotOpen, app (start browser))
   \<and> (\<forall>t. createIndex ''orders'' ''email'' ''email'' None
              ((app shop)\<lparr>handle := (handle (app shop))\<lparr>upgradeTransaction := t\<rparr>\<rparr>)
            = (Inl (StoreNotFound ''orders''),
               (app shop)\<lparr>handle := (handle (app shop))\<lparr>upgradeTransaction := t\<rparr>\<rparr>))
   \<and> createIndex ''users'' ''email'' ''email'' None (app shop)
     = (Inl IndexCreationOutsideUpgrade, app shop)"
  using createIndex_precondition_order
          [of "app (start browser)" "''users''" "''email''" "''email''" None shop_connection]
        createIndex_precondition_order
          [of "app shop" "''orders''" "''email''" "''email''" None shop_connection]
        createIndex_precondition_order
          [of "app shop" "''users''" "''email''" "''email''" None shop_connection]
  by (simp add: shop_facts start_def new_SimpleIDB_def)

section \<open>createStore and the upgrade context\<close>

lemma createStore_NotOpen:
  "db (handle w) = None \<Longrightarrow> createStore storeName options w = (Inl NotOpen, w)"
  by (simp add: createStore_def)

lemma createStore_existing:
  "db (handle w) = Some d \<Longrightarrow> objectStoreNames_contains d storeName (host w) \<Longrightarrow>
   createStore storeName options w = (Inr (), w)"
  by (simp add: createStore_def)

lemma createStore_ignores_context:
  "createStore storeName options (w\<lparr>handle := (handle w)\<lparr>upgradeTransaction := t\<rparr>\<rparr>)
     = (fst (createStore storeName options w),
        (snd (createStore storeName options w))
          \<lparr>handle := (handle (snd (createStore storeName options w)))\<lparr>upgradeTransaction := t\<rparr>\<rparr>)"
  by (simp add: createStore_def split: option.splits prod.splits sum.splits)

lemma createStore_refused:
  "db (handle w) = Some d \<Longrightarrow> \<not> objectStoreNames_contains d storeName (host w) \<Longrightarrow>
   upgrading (host w) = None \<Longrightarrow>
   fst (createStore storeName options w)
     = Inl (Thrown (DOMException InvalidStateError (diagnostic (host w) InvalidStateError)))
   \<and> databases (host (snd (createStore storeName options w))) = databases (host w)"
  by (simp add: createStore_def createObjectStore_def called_def raise_def Let_def)

lemma createIndex_success_context:
  "fst (createIndex storeName indexName kp options w) = Inr () \<Longrightarrow>
   upgradeTransaction (handle w) \<noteq> None"
  by (auto simp add: createIndex_def split: option.splits if_splits)

lemma createIndex_outside_result:
  "upgradeTransaction (handle w) = None \<Longrightarrow>
   snd (createIndex storeName indexName kp options w) = w
   \<and> fst (createIndex storeName indexName kp options w)
       \<in> {Inl NotOpen, Inl (StoreNotFound storeName), Inl IndexCreationOutsideUpgrade}"
  by (simp add: createIndex_def split: option.splits)

text \<open>The upgrade callback of the first \<open>open\<close> of \<open>shop\<close> runs in the world
  \<open>shop_upgrade\<close>; what the handler and the engine do after it depends on whether it
  throws.\<close>

lemma upgrade_callback_world:
  "app (run [Open ''shop'' 1 (Some cb), UpgradeNeeded 0] (start browser))
     = (case cb shop_connection shop_upgrade of
          (None, w) \<Rightarrow>
            w\<lparr>handle := (handle w)\<lparr>upgradeTransaction := None\<rparr>,
              host := (host w)\<lparr>upgrading := None\<rparr>\<rparr>
        | (Some ex, w) \<Rightarrow>
            w\<lparr>host := (host w)
                \<lparr>upgrading := None,
                 databases := (databases (host w))(''shop'' := Map.empty),
                 closed := 0 # closed (host w)\<rparr>\<rparr>)"
  by (cases "cb shop_connection shop_upgrade")
     (simp add: scenario_defs shop_upgrade_def shop_transaction_def numeral_2_eq_2
        split: option.splits)

lemma createStore_users:
  "createStore ''users'' (Some \<lparr>keyPath = Some ''id'', autoIncrement = None\<rparr>) shop_upgrade
     = (Inr (), users_declared)"
  by (simp add: scenario_defs shop_upgrade_def shop_transaction_def users_declared_def)

lemma createIndex_email:
  "createIndex ''users'' ''email'' ''email'' (Some \<lparr>unique = Some True, multiEntry = None\<rparr>)
     users_declared = (Inr (), email_declared)"
  by (simp add: scenario_defs shop_upgrade_def shop_transaction_def users_declared_def
        email_declared_def email_index_def createIndex_def objectStore_def indexNames_contains_def
        store_of_def store_update_def createIndex_call_def)

section \<open>Declaring twice\<close>

lemma createStore_twice:
  assumes "createStore storeName o1 w = (Inr (), w1)"
  shows "createStore storeName o2 w1 = (Inr (), w1)"
proof (cases "db (handle w)")
  case None
  with assms show ?thesis by (simp add: createStore_def)
next
  case (Some d)
  show ?thesis
  proof (cases "objectStoreNames_contains d storeName (host w)")
    case True
    with Some assms have "w1 = w" by (simp add: createStore_def)
    with Some True show ?thesis by (simp add: createStore_def)
  next
    case False
    with Some assms have "db (handle w1) = Some d \<and> objectStoreNames_contains d storeName (host w1)"
      by (auto simp add: createStore_def createObjectStore_def called_def Let_def
            objectStoreNames_contains_def split: if_splits)
    then show ?thesis by (simp add: createStore_def)
  qed
qed

lemma createStore_declares:
  assumes "createStore storeName o1 w = (Inr (), w1)"
    and "db (handle w) = Some d" and "\<not> objectStoreNames_contains d storeName (host w)"
  shows "databases (host w1) (connection_name d) storeName
           = Some \<lparr>store_keyPath = Option.bind o1 keyPath,
                   store_autoIncrement =
                     (case Option.bind o1 autoIncrement of None \<Rightarrow> False | Some b \<Rightarrow> b),
                   store_generator = 1, store_indexes = Map.empty, store_records = []\<rparr>"
  using assms
  by (auto simp add: createStore_def createObjectStore_def called_def Let_def
            objectStoreNames_contains_def split: if_splits)

lemma createIndex_twice:
  assumes "createIndex storeName indexName kp1 o1 w = (Inr (), w1)"
  shows "fst (createIndex storeName indexName kp2 o2 w1) = Inr ()
         \<and> handle (snd (createIndex storeName indexName kp2 o2 w1)) = handle w1
         \<and> databases (host (snd (createIndex storeName indexName kp2 o2 w1))) = databases (host w1)"
proof -
  from assms obtain d where d: "db (handle w) = Some d"
    by (cases "db (handle w)") (simp_all add: createIndex_def)
  from assms d have c: "objectStoreNames_contains d storeName (host w)"
    by (cases "objectStoreNames_contains d storeName (host w)") (simp_all add: createIndex_def)
  from assms d c obtain tx where tx: "upgradeTransaction (handle w) = Some tx"
    by (cases "upgradeTransaction (handle w)") (simp_all add: createIndex_def)
  define os where "os = \<lparr>objectStore_transaction = tx, objectStore_name = storeName\<rparr>"
  define e where "e = called (Call_objectStore storeName) (host w)"
  from assms d c tx have acc: "objectStore tx storeName (host w) = (Inr os, e)"
    by (cases "objectStore tx storeName (host w)")
       (auto simp add: createIndex_def os_def e_def objectStore_def Let_def split: if_splits)
  have facts: "handle w1 = handle w \<and> upgrading (host w1) = upgrading (host w)
      \<and> (\<forall>n s. databases (host w) n s \<noteq> None \<longrightarrow> databases (host w1) n s \<noteq> None)
      \<and> indexNames_contains os indexName (called (Call_objectStore storeName) (host w1))"
    using assms d c tx acc
    by (auto simp add: createIndex_def createIndex_call_def indexNames_contains_def store_of_def
          store_update_def called_def e_def os_def Let_def
          split: if_splits option.splits)
  from acc have ok: "\<not> (transaction_mode tx = versionchange \<and> upgrading (host w) \<noteq> Some tx)
      \<and> databases (host w) (connection_name (transaction_db tx)) storeName \<noteq> None
      \<and> (transaction_mode tx = versionchange \<or> storeName \<in> set (transaction_scope tx))"
    by (auto simp add: objectStore_def called_def Let_def split: if_splits)
  with facts have acc1: "objectStore tx storeName (host w1)
      = (Inr os, called (Call_objectStore storeName) (host w1))"
    by (auto simp add: objectStore_def called_def Let_def os_def)
  from c facts have c1: "objectStoreNames_contains d storeName (host w1)"
    by (simp add: objectStoreNames_contains_def)
  from d tx facts c1 acc1 show ?thesis
    by (simp add: createIndex_def called_def)
qed

lemma createIndex_existing:
  assumes "db (handle u) = Some c" and "upgradeTransaction (handle u) = Some t"
    and "upgrading (host u) = Some t" and "transaction_mode t = versionchange"
    and "transaction_db t = c"
    and "databases (host u) (connection_name c) storeName = Some st"
    and "store_indexes st indexName \<noteq> None"
  shows "createIndex storeName indexName kp options u
           = (Inr (), u\<lparr>host := called (Call_objectStore storeName) (host u)\<rparr>)"
  using assms
  by (simp add: createIndex_def objectStoreNames_contains_def objectStore_def
        indexNames_contains_def store_of_def called_def Let_def)

lemma createIndex_declares:
  assumes "createIndex storeName indexName kp1 o1 w = (Inr (), w1)"
    and "upgradeTransaction (handle w) = Some tx"
    and "\<not> indexNames_contains \<lparr>objectStore_transaction = tx, objectStore_name = storeName\<rparr>
            indexName (host w)"
  shows "map_option (\<lambda>st. store_indexes st indexName)
           (databases (host w1) (connection_name (transaction_db tx)) storeName)
         = Some (Some \<lparr>index_keyPath = kp1,
                        index_unique =
                          (case Option.bind o1 unique of None \<Rightarrow> False | Some b \<Rightarrow> b),
                        index_multiEntry =
                          (case Option.bind o1 multiEntry of None \<Rightarrow> False | Some b \<Rightarrow> b)\<rparr>)"
  using assms
  by (auto simp add: createIndex_def createIndex_call_def indexNames_contains_def store_of_def
        store_update_def objectStore_def called_def Let_def
        split: if_splits option.splits)

text \<open>
  Claim C2, as the code has it. \<open>createIndex\<close> succeeds only while the handle holds an
  upgrade context; called without one it fails with NotOpen, StoreNotFound or
  IndexCreationOutsideUpgrade and changes nothing. \<open>createStore\<close> does not look at the
  upgrade context at all: its outcome is the same whatever the context is. It fails with
  NotOpen without a database reference, returns normally without any change when the
  named store already exists, and otherwise hands the declaration to the engine, which
  refuses it with its own InvalidStateError, declaring nothing, when no upgrade
  transaction is live.
\<close>

theorem schema_operations_and_upgrade_context:
  "(fst (createIndex storeName indexName kp ioptions w) = Inr () \<longrightarrow>
      upgradeTransaction (handle w) \<noteq> None)
   \<and> (upgradeTransaction (handle w) = None \<longrightarrow>
        snd (createIndex storeName indexName kp ioptions w) = w
        \<and> fst (createIndex storeName indexName kp ioptions w)
            \<in> {Inl NotOpen, Inl (StoreNotFound storeName), Inl IndexCreationOutsideUpgrade})
   \<and> (\<forall>t. createStore storeName options (w\<lparr>handle := (handle w)\<lparr>upgradeTransaction := t\<rparr>\<rparr>)
          = (fst (createStore storeName options w),
             (snd (createStore storeName options w))
               \<lparr>handle := (handle (snd (createStore storeName options w)))
                  \<lparr>upgradeTransaction := t\<rparr>\<rparr>))
   \<and> (db (handle w) = None \<longrightarrow> createStore storeName options w = (Inl NotOpen, w))
   \<and> (db (handle w) = Some d \<and> objectStoreNames_contains d storeName (host w) \<longrightarrow>
        createStore storeName options w = (Inr (), w))
   \<and> (db (handle w) = Some d \<and> \<not> objectStoreNames_contains d storeName (host w)
        \<and> upgrading (host w) = None \<longrightarrow>
        fst (createStore storeName options w)
          = Inl (Thrown (DOMException InvalidStateError (diagnostic (host w) InvalidStateError)))
        \<and> databases (host (snd (createStore storeName options w))) = databases (host w))"
proof (intro conjI allI impI)
  fix t
  show "createStore storeName options (w\<lparr>handle := (handle w)\<lparr>upgradeTransaction := t\<rparr>\<rparr>)
          = (fst (createStore storeName options w),
             (snd (createStore storeName options w))
               \<lparr>handle := (handle (snd (createStore storeName options w)))
                  \<lparr>upgradeTransaction := t\<rparr>\<rparr>)"
    by (rule createStore_ignores_context)
next
  assume "upgradeTransaction (handle w) = None"
  then show "fst (createIndex storeName indexName kp ioptions w)
            \<in> {Inl NotOpen, Inl (StoreNotFound storeName), Inl IndexCreationOutsideUpgrade}"
    using createIndex_outside_result by blast
qed (simp_all add: createIndex_success_context createIndex_outside_result createStore_NotOpen
       createStore_existing createStore_refused)

text \<open>The cases of the theorem on the \<open>shop\<close> database: inside its upgrade, after it
  was opened, and on a new handle.\<close>

theorem schema_operations_and_upgrade_context_witness:
  "fst (createIndex ''users'' ''email'' ''email'' None users_declared) = Inr ()
   \<and> upgradeTransaction (handle users_declared) \<noteq> None
   \<and> upgradeTransaction (handle (app shop)) = None
   \<and> snd (createIndex ''users'' ''email'' ''email'' None (app shop)) = app shop
   \<and> fst (createIndex ''users'' ''email'' ''email'' None (app shop))
       \<in> {Inl NotOpen, Inl (StoreNotFound ''users''), Inl IndexCreationOutsideUpgrade}
   \<and> createStore ''users'' None (app (start browser)) = (Inl NotOpen, app (start browser))
   \<and> createStore ''users'' None (app shop) = (Inr (), app shop)
   \<and> fst (createStore ''orders'' None (app shop))
       = Inl (Thrown (DOMException InvalidStateError ''engine diagnostic''))
   \<and> databases (host (snd (createStore ''orders'' None (app shop)))) = databases (host (app shop))"
proof -
  note inside = schema_operations_and_upgrade_context
      [of "''users''" "''email''" "''email''" None users_declared None shop_connection]
  note opened = schema_operations_and_upgrade_context
      [of "''users''" "''email''" "''email''" None "app shop" None shop_connection]
  note fresh = schema_operations_and_upgrade_context
      [of "''users''" "''email''" "''email''" None "app (start browser)" None shop_connection]
  note orders = schema_operations_and_upgrade_context
      [of "''orders''" "''email''" "''email''" None "app shop" None shop_connection]
  have declared: "fst (createIndex ''users'' ''email'' ''email'' None users_declared) = Inr ()"
    by (simp add: scenario_defs shop_upgrade_def shop_transaction_def users_declared_def
          createIndex_def objectStore_def indexNames_contains_def
          store_of_def store_update_def createIndex_call_def)
  have active: "upgradeTransaction (handle users_declared) \<noteq> None"
    using inside [THEN conjunct1] declared by (rule mp)
  have outside: "snd (createIndex ''users'' ''email'' ''email'' None (app shop)) = app shop
      \<and> fst (createIndex ''users'' ''email'' ''email'' None (app shop))
          \<in> {Inl NotOpen, Inl (StoreNotFound ''users''), Inl IndexCreationOutsideUpgrade}"
    using opened [THEN conjunct2, THEN conjunct1] shop_facts(2) by (rule mp)
  have unopened: "db (handle (app (start browser))) = None"
    by (simp add: start_def new_SimpleIDB_def)
  have notopen: "createStore ''users'' None (app (start browser))
      = (Inl NotOpen, app (start browser))"
    using fresh [THEN conjunct2, THEN conjunct2, THEN conjunct2, THEN conjunct1] unopened
    by (rule mp)
  have existing: "createStore ''users'' None (app shop) = (Inr (), app shop)"
    using opened [THEN conjunct2, THEN conjunct2, THEN conjunct2, THEN conjunct2,
                  THEN conjunct1] shop_facts(1) shop_facts(3)
    by blast
  have diag: "diagnostic (host (app shop)) InvalidStateError = ''engine diagnostic''"
    by (simp add: app_shop browser_def)
  have "fst (createStore ''orders'' None (app shop))
          = Inl (Thrown (DOMException InvalidStateError
                  (diagnostic (host (app shop)) InvalidStateError)))
        \<and> databases (host (snd (createStore ''orders'' None (app shop))))
            = databases (host (app shop))"
    using orders [THEN conjunct2, THEN conjunct2, THEN conjunct2, THEN conjunct2,
                  THEN conjunct2] shop_facts(1) shop_facts(4) shop_facts(5)
    by blast
  then have refused: "fst (createStore ''orders'' None (app shop))
          = Inl (Thrown (DOMException InvalidStateError ''engine diagnostic''))
        \<and> databases (host (snd (createStore ''orders'' None (app shop))))
            = databases (host (app shop))"
    by (simp only: diag)
  from declared active shop_facts(2) outside notopen existing refused show ?thesis
    by blast
qed

text \<open>Claim C2 as stated fails: after \<open>open\<close> has resolved, with no upgrade context
  in the handle and no upgrade transaction in the engine, \<open>createStore\<close> for the
  existing store \<open>users\<close> returns normally instead of failing.\<close>

theorem createStore_succeeds_outside_upgrade:
  "db (handle (app shop)) = Some shop_connection
   \<and> upgradeTransaction (handle (app shop)) = None
   \<and> upgrading (host (app shop)) = None
   \<and> createStore ''users'' (Some \<lparr>keyPath = Some ''id'', autoIncrement = None\<rparr>) (app shop)
       = (Inr (), app shop)"
  by (simp add: shop_facts createStore_existing)

text \<open>
  Claim C5: declaring twice is idempotent. When a \<open>createStore\<close> call has returned
  normally, a second call with the same store name and any options returns normally and
  leaves the whole world as the first call left it; a store that the first call created
  keeps the configuration of the first call. When a \<open>createIndex\<close> call has returned
  normally, the upgrade context is still active, and a second call with the same store
  and index name, any key path and any options returns normally and changes neither the
  handle nor any database; an index that the first call created keeps the key path and
  options of the first call. More generally, on an open handle \<open>createStore\<close> for a
  store that exists returns normally and changes nothing, and under a live upgrade
  context \<open>createIndex\<close> for an index that exists returns normally and declares
  nothing.
\<close>

theorem redeclaration_is_noop:
  "(createStore storeName o1 w = (Inr (), w1) \<longrightarrow>
      createStore storeName o2 w1 = (Inr (), w1))
   \<and> (createStore storeName o1 w = (Inr (), w1) \<and> db (handle w) = Some d
        \<and> \<not> objectStoreNames_contains d storeName (host w) \<longrightarrow>
      databases (host (snd (createStore storeName o2 w1))) (connection_name d) storeName
        = Some \<lparr>store_keyPath = Option.bind o1 keyPath,
                store_autoIncrement =
                  (case Option.bind o1 autoIncrement of None \<Rightarrow> False | Some b \<Rightarrow> b),
                store_generator = 1, store_indexes = Map.empty, store_records = []\<rparr>)
   \<and> (createIndex storeName indexName kp1 i1 v = (Inr (), v1) \<longrightarrow>
        upgradeTransaction (handle v1) \<noteq> None
        \<and> fst (createIndex storeName indexName kp2 i2 v1) = Inr ()
        \<and> handle (snd (createIndex storeName indexName kp2 i2 v1)) = handle v1
        \<and> databases (host (snd (createIndex storeName indexName kp2 i2 v1)))
            = databases (host v1))
   \<and> (createIndex storeName indexName kp1 i1 v = (Inr (), v1)
        \<and> upgradeTransaction (handle v) = Some tx
        \<and> \<not> indexNames_contains \<lparr>objectStore_transaction = tx, objectStore_name = storeName\<rparr>
              indexName (host v) \<longrightarrow>
      map_option (\<lambda>st. store_indexes st indexName)
        (databases (host (snd (createIndex storeName indexName kp2 i2 v1)))
           (connection_name (transaction_db tx)) storeName)
        = Some (Some \<lparr>index_keyPath = kp1,
                       index_unique =
                         (case Option.bind i1 unique of None \<Rightarrow> False | Some b \<Rightarrow> b),
                       index_multiEntry =
                         (case Option.bind i1 multiEntry of None \<Rightarrow> False | Some b \<Rightarrow> b)\<rparr>))
   \<and> (db (handle u) = Some c \<and> objectStoreNames_contains c storeName (host u) \<longrightarrow>
        createStore storeName o2 u = (Inr (), u))
   \<and> (db (handle u) = Some c \<and> upgradeTransaction (handle u) = Some t
        \<and> upgrading (host u) = Some t \<and> transaction_mode t = versionchange
        \<and> transaction_db t = c
        \<and> databases (host u) (connection_name c) storeName = Some st
        \<and> store_indexes st indexName \<noteq> None \<longrightarrow>
        createIndex storeName indexName kp2 i2 u
          = (Inr (), u\<lparr>host := called (Call_objectStore storeName) (host u)\<rparr>))"
proof (intro conjI impI)
  assume "createStore storeName o1 w = (Inr (), w1)"
  then show "createStore storeName o2 w1 = (Inr (), w1)" by (rule createStore_twice)
next
  assume "db (handle u) = Some c \<and> objectStoreNames_contains c storeName (host u)"
  then show "createStore storeName o2 u = (Inr (), u)"
    by (simp add: createStore_existing)
next
  assume "db (handle u) = Some c \<and> upgradeTransaction (handle u) = Some t
        \<and> upgrading (host u) = Some t \<and> transaction_mode t = versionchange
        \<and> transaction_db t = c
        \<and> databases (host u) (connection_name c) storeName = Some st
        \<and> store_indexes st indexName \<noteq> None"
  then show "createIndex storeName indexName kp2 i2 u
          = (Inr (), u\<lparr>host := called (Call_objectStore storeName) (host u)\<rparr>)"
    by (simp add: createIndex_existing)
next
  assume a: "createStore storeName o1 w = (Inr (), w1) \<and> db (handle w) = Some d
        \<and> \<not> objectStoreNames_contains d storeName (host w)"
  then have "createStore storeName o2 w1 = (Inr (), w1)" using createStore_twice by blast
  with a show "databases (host (snd (createStore storeName o2 w1))) (connection_name d) storeName
        = Some \<lparr>store_keyPath = Option.bind o1 keyPath,
                store_autoIncrement =
                  (case Option.bind o1 autoIncrement of None \<Rightarrow> False | Some b \<Rightarrow> b),
                store_generator = 1, store_indexes = Map.empty, store_records = []\<rparr>"
    using createStore_declares [of storeName o1 w w1 d] by simp
next
  assume a: "createIndex storeName indexName kp1 i1 v = (Inr (), v1)"
  then have "upgradeTransaction (handle v) \<noteq> None"
    using createIndex_success_context [of storeName indexName kp1 i1 v] by simp
  moreover from a have "handle v1 = handle v"
    by (auto simp add: createIndex_def split: option.splits if_splits prod.splits sum.splits)
  ultimately show "upgradeTransaction (handle v1) \<noteq> None" by simp
next
  assume "createIndex storeName indexName kp1 i1 v = (Inr (), v1)"
  then show "fst (createIndex storeName indexName kp2 i2 v1) = Inr ()"
    using createIndex_twice by blast
next
  assume "createIndex storeName indexName kp1 i1 v = (Inr (), v1)"
  then show "handle (snd (createIndex storeName indexName kp2 i2 v1)) = handle v1"
    using createIndex_twice by blast
next
  assume "createIndex storeName indexName kp1 i1 v = (Inr (), v1)"
  then show "databases (host (snd (createIndex storeName indexName kp2 i2 v1)))
            = databases (host v1)"
    using createIndex_twice by blast
next
  assume a: "createIndex storeName indexName kp1 i1 v = (Inr (), v1)
        \<and> upgradeTransaction (handle v) = Some tx
        \<and> \<not> indexNames_contains \<lparr>objectStore_transaction = tx, objectStore_name = storeName\<rparr>
              indexName (host v)"
  then have "databases (host (snd (createIndex storeName indexName kp2 i2 v1)))
            = databases (host v1)"
    using createIndex_twice by blast
  with a show "map_option (\<lambda>st. store_indexes st indexName)
        (databases (host (snd (createIndex storeName indexName kp2 i2 v1)))
           (connection_name (transaction_db tx)) storeName)
        = Some (Some \<lparr>index_keyPath = kp1,
                       index_unique =
                         (case Option.bind i1 unique of None \<Rightarrow> False | Some b \<Rightarrow> b),
                       index_multiEntry =
                         (case Option.bind i1 multiEntry of None \<Rightarrow> False | Some b \<Rightarrow> b)\<rparr>)"
    using createIndex_declares [of storeName indexName kp1 i1 v v1 tx] by simp
qed

text \<open>In the upgrade of \<open>shop\<close>: \<open>users\<close> declared with key path \<open>id\<close> and declared
  again with other options; the index \<open>email\<close> declared unique and declared again with
  another key path and other options.\<close>

theorem redeclaration_is_noop_witness:
  "createStore ''users'' (Some \<lparr>keyPath = Some ''id'', autoIncrement = None\<rparr>) shop_upgrade
     = (Inr (), users_declared)
   \<and> createStore ''users'' (Some \<lparr>keyPath = Some ''uid'', autoIncrement = Some True\<rparr>)
       users_declared = (Inr (), users_declared)
   \<and> databases (host users_declared) ''shop'' ''users'' = Some users_store
   \<and> createIndex ''users'' ''email'' ''email'' (Some \<lparr>unique = Some True, multiEntry = None\<rparr>)
       users_declared = (Inr (), email_declared)
   \<and> fst (createIndex ''users'' ''email'' ''contact.email''
            (Some \<lparr>unique = Some False, multiEntry = Some True\<rparr>) email_declared) = Inr ()
   \<and> databases (host (snd (createIndex ''users'' ''email'' ''contact.email''
            (Some \<lparr>unique = Some False, multiEntry = Some True\<rparr>) email_declared)))
       = databases (host email_declared)
   \<and> map_option (\<lambda>st. store_indexes st ''email'')
        (databases (host email_declared) ''shop'' ''users'') = Some (Some email_index)
   \<and> createStore ''users'' (Some \<lparr>keyPath = Some ''uid'', autoIncrement = Some True\<rparr>)
       (app shop) = (Inr (), app shop)
   \<and> createIndex ''users'' ''email'' ''contact.email''
       (Some \<lparr>unique = Some False, multiEntry = Some True\<rparr>) email_declared
       = (Inr (), email_declared\<lparr>host := called (Call_objectStore ''users'')
                                           (host email_declared)\<rparr>)"
proof -
  have none: "\<not> objectStoreNames_contains shop_connection ''users'' (host shop_upgrade)"
    by (simp add: objectStoreNames_contains_def shop_upgrade_def browser_def)
  have tx: "upgradeTransaction (handle users_declared) = Some shop_transaction"
    by (simp add: users_declared_def shop_upgrade_def)
  have noindex: "\<not> indexNames_contains
      \<lparr>objectStore_transaction = shop_transaction, objectStore_name = ''users''\<rparr> ''email''
      (host users_declared)"
    by (simp add: indexNames_contains_def store_of_def users_declared_def shop_upgrade_def
          shop_transaction_def shop_connection_def users_store_def)
  have d: "db (handle shop_upgrade) = Some shop_connection"
    by (simp add: shop_upgrade_def)
  have name: "connection_name shop_connection = ''shop''"
    "connection_name (transaction_db shop_transaction) = ''shop''"
    by (simp_all add: shop_connection_def shop_transaction_def)
  note T = redeclaration_is_noop
            [where storeName = "''users''"
               and ?o1.0 = "Some \<lparr>keyPath = Some ''id'', autoIncrement = None\<rparr>"
               and w = shop_upgrade and ?w1.0 = users_declared
               and ?o2.0 = "Some \<lparr>keyPath = Some ''uid'', autoIncrement = Some True\<rparr>"
               and d = shop_connection and indexName = "''email''" and ?kp1.0 = "''email''"
               and ?i1.0 = "Some \<lparr>unique = Some True, multiEntry = None\<rparr>"
               and v = users_declared and ?v1.0 = email_declared
               and ?kp2.0 = "''contact.email''"
               and ?i2.0 = "Some \<lparr>unique = Some False, multiEntry = Some True\<rparr>"
               and tx = shop_transaction and u = "app shop" and c = shop_connection]
  note E = redeclaration_is_noop
            [where storeName = "''users''" and indexName = "''email''"
               and ?kp2.0 = "''contact.email''"
               and ?i2.0 = "Some \<lparr>unique = Some False, multiEntry = Some True\<rparr>"
               and u = email_declared and c = shop_connection and t = shop_transaction
               and st = "users_store\<lparr>store_indexes := [''email'' \<mapsto> email_index]\<rparr>"]
  have existing: "createStore ''users''
       (Some \<lparr>keyPath = Some ''uid'', autoIncrement = Some True\<rparr>) (app shop)
       = (Inr (), app shop)"
    using T [THEN conjunct2, THEN conjunct2, THEN conjunct2, THEN conjunct2, THEN conjunct1]
      shop_facts(1) shop_facts(3)
    by blast
  have live: "db (handle email_declared) = Some shop_connection"
    "upgradeTransaction (handle email_declared) = Some shop_transaction"
    "upgrading (host email_declared) = Some shop_transaction"
    "transaction_mode shop_transaction = versionchange"
    "transaction_db shop_transaction = shop_connection"
    "databases (host email_declared) (connection_name shop_connection) ''users''
       = Some (users_store\<lparr>store_indexes := [''email'' \<mapsto> email_index]\<rparr>)"
    "store_indexes (users_store\<lparr>store_indexes := [''email'' \<mapsto> email_index]\<rparr>) ''email''
       \<noteq> None"
    by (simp_all add: email_declared_def shop_upgrade_def shop_transaction_def
          shop_connection_def browser_def)
  have indexed: "createIndex ''users'' ''email'' ''contact.email''
       (Some \<lparr>unique = Some False, multiEntry = Some True\<rparr>) email_declared
       = (Inr (), email_declared\<lparr>host := called (Call_objectStore ''users'')
                                           (host email_declared)\<rparr>)"
    using E [THEN conjunct2, THEN conjunct2, THEN conjunct2, THEN conjunct2, THEN conjunct2]
      live
    by blast
  have again: "createStore ''users'' (Some \<lparr>keyPath = Some ''uid'', autoIncrement = Some True\<rparr>)
       users_declared = (Inr (), users_declared)"
    using T [THEN conjunct1] createStore_users by (rule mp)
  have "databases (host (snd (createStore ''users''
            (Some \<lparr>keyPath = Some ''uid'', autoIncrement = Some True\<rparr>) users_declared)))
          (connection_name shop_connection) ''users''
        = Some \<lparr>store_keyPath = Some ''id'', store_autoIncrement = False,
                store_generator = 1, store_indexes = Map.empty, store_records = []\<rparr>"
    using T [THEN conjunct2, THEN conjunct1] createStore_users d none by simp
  then have kept: "databases (host users_declared) ''shop'' ''users'' = Some users_store"
    by (simp add: again name users_store_def)
  have second: "upgradeTransaction (handle email_declared) \<noteq> None
      \<and> fst (createIndex ''users'' ''email'' ''contact.email''
            (Some \<lparr>unique = Some False, multiEntry = Some True\<rparr>) email_declared) = Inr ()
      \<and> handle (snd (createIndex ''users'' ''email'' ''contact.email''
            (Some \<lparr>unique = Some False, multiEntry = Some True\<rparr>) email_declared))
          = handle email_declared
      \<and> databases (host (snd (createIndex ''users'' ''email'' ''contact.email''
            (Some \<lparr>unique = Some False, multiEntry = Some True\<rparr>) email_declared)))
          = databases (host email_declared)"
    using T [THEN conjunct2, THEN conjunct2, THEN conjunct1] createIndex_email by (rule mp)
  have "map_option (\<lambda>st. store_indexes st ''email'')
        (databases (host (snd (createIndex ''users'' ''email'' ''contact.email''
            (Some \<lparr>unique = Some False, multiEntry = Some True\<rparr>) email_declared)))
           (connection_name (transaction_db shop_transaction)) ''users'')
        = Some (Some \<lparr>index_keyPath = ''email'', index_unique = True,
                       index_multiEntry = False\<rparr>)"
    using T [THEN conjunct2, THEN conjunct2, THEN conjunct2, THEN conjunct1]
      createIndex_email tx noindex
    by simp
  then have index_kept: "map_option (\<lambda>st. store_indexes st ''email'')
        (databases (host email_declared) ''shop'' ''users'') = Some (Some email_index)"
    using second by (simp add: name email_index_def)
  from createStore_users again kept createIndex_email second index_kept existing indexed
  show ?thesis
    by blast
qed

section \<open>The histories of the scenarios\<close>

lemma system_shop:
  "shop =
     \<lparr>app = \<lparr>handle = \<lparr>db = Some shop_connection, upgradeTransaction = None\<rparr>,
             host = browser
               \<lparr>databases := (\<lambda>n. Map.empty)(''shop'' := [''users'' \<mapsto> users_store]),
                fresh := 2,
                calls := [Call_open ''shop'' 1,
                          Call_createObjectStore ''users'' (Some ''id'') False]\<rparr>\<rparr>,
      requests = [\<lparr>request_name = ''shop'', request_version = 1,
                   request_upgradeCallback = Some declare_users,
                   request_connection = Some shop_connection,
                   request_rollback = Some Map.empty,
                   request_aborted = False, promise = Some (Inr ())\<rparr>]\<rparr>"
  by (simp add: shop_def scenario_defs)

lemma app_pending_open: "app pending_open = app shop"
  by (simp add: pending_open_def shop_def scenario_defs)

lemma promise_pending_open: "map promise (requests pending_open) = [None]"
  by (simp add: pending_open_def scenario_defs)

lemma app_failed_open:
  "app failed_open =
     \<lparr>handle = \<lparr>db = Some shop_connection, upgradeTransaction = None\<rparr>,
      host = browser
        \<lparr>databases := (\<lambda>n. Map.empty)(''shop'' := Map.empty),
         closed := [0], fresh := 2,
         calls := [Call_open ''shop'' 1,
                   Call_createObjectStore ''users'' (Some ''id'') False]\<rparr>\<rparr>"
  by (simp add: failed_open_def scenario_defs)

lemma promise_failed_open:
  "map promise (requests failed_open)
     = [Some (Inl (OpenFailed (Some (DOMException AbortError ''quota exceeded''))))]"
  by (simp add: failed_open_def scenario_defs)

lemma app_reopening:
  "app reopening =
     \<lparr>handle = \<lparr>db = Some reopened_connection, upgradeTransaction = None\<rparr>,
      host = browser
        \<lparr>databases := (\<lambda>n. Map.empty)
           (''shop'' := [''users'' \<mapsto> users_store,
                        ''orders'' \<mapsto> \<lparr>store_keyPath = None, store_autoIncrement = True,
                           store_generator = 1, store_indexes = Map.empty,
                           store_records = []\<rparr>]),
         closed := [0], fresh := 4,
         calls := [Call_open ''shop'' 1,
                   Call_createObjectStore ''users'' (Some ''id'') False,
                   Call_close, Call_open ''shop'' 2,
                   Call_createObjectStore ''orders'' None True]\<rparr>\<rparr>"
  by (simp add: reopening_def system_shop scenario_defs declare_orders_def
        reopened_connection_def)

lemma promise_reopening: "map promise (requests reopening) = [Some (Inr ()), None]"
  by (simp add: reopening_def system_shop scenario_defs declare_orders_def)

lemma app_failed_migration:
  "app failed_migration =
     \<lparr>handle = \<lparr>db = Some reopened_connection, upgradeTransaction = Some stale_transaction\<rparr>,
      host = browser
        \<lparr>databases := (\<lambda>n. Map.empty)(''shop'' := [''users'' \<mapsto> users_store]),
         closed := [2, 0], fresh := 4,
         calls := [Call_open ''shop'' 1,
                   Call_createObjectStore ''users'' (Some ''id'') False,
                   Call_close, Call_open ''shop'' 2]\<rparr>\<rparr>"
  by (simp add: failed_migration_def system_shop scenario_defs
        reopened_connection_def stale_transaction_def)


section \<open>Without a database reference\<close>

lemma data_operations_NotOpen:
  assumes "db (handle w) = None"
  shows "add storeName data w = (Inl NotOpen, w)"
    and "get storeName key w = (Inl NotOpen, w)"
    and "put storeName data w = (Inl NotOpen, w)"
    and "delete storeName key w = (Inl NotOpen, w)"
    and "clear storeName w = (Inl NotOpen, w)"
    and "getAll storeName w = (Inl NotOpen, w)"
    and "count storeName w = (Inl NotOpen, w)"
  using assms
  by (simp_all add: add_def get_def put_def delete_def clear_def getAll_def count_def)

lemma close_handle: "handle (close w) = (handle w)\<lparr>db := None\<rparr>"
  by (simp add: close_def Let_def)

lemma close_unopened: "db (handle w) = None \<Longrightarrow> close w = w"
  by (simp add: close_def)

lemma open_handle: "handle (app (snd (open dbName version cb sys))) = handle (app sys)"
  by (simp add: open_def Let_def)

lemma deliver_error_handle: "handle (app (deliver_error i ex sys)) = handle (app sys)"
  by (simp add: deliver_error_def onerror_def Let_def)

lemma step_without_database:
  assumes "db (handle (app sys)) = None" and "without_database a"
  shows "db (handle (app (step a sys))) = None"
proof (cases a)
  case (Open dbName version cb)
  with assms show ?thesis by (simp add: open_handle)
next
  case (Failure i ex)
  with assms show ?thesis by (simp add: deliver_error_handle)
next
  case Close
  then show ?thesis by (simp add: close_handle)
qed (use assms in \<open>simp_all add: data_operations_NotOpen createStore_NotOpen createIndex_NotOpen\<close>)

lemma run_without_database:
  "db (handle (app sys)) = None \<Longrightarrow> list_all without_database history \<Longrightarrow>
   db (handle (app (run history sys))) = None"
proof (induction history arbitrary: sys)
  case Nil
  then show ?case by simp
next
  case (Cons a history)
  from Cons.prems have "db (handle (app (step a sys))) = None"
    by (simp add: step_without_database)
  with Cons show ?case by simp
qed

lemma every_operation_NotOpen:
  assumes "db (handle w) = None"
  shows "add storeName data w = (Inl NotOpen, w)
     \<and> get storeName key w = (Inl NotOpen, w)
     \<and> put storeName data w = (Inl NotOpen, w)
     \<and> delete storeName key w = (Inl NotOpen, w)
     \<and> clear storeName w = (Inl NotOpen, w)
     \<and> getAll storeName w = (Inl NotOpen, w)
     \<and> count storeName w = (Inl NotOpen, w)
     \<and> createStore storeName options w = (Inl NotOpen, w)
     \<and> createIndex storeName indexName kp ioptions w = (Inl NotOpen, w)"
  using assms
  by (simp add: data_operations_NotOpen createStore_NotOpen createIndex_NotOpen)

text \<open>
  Claim C3, as the code has it. Take a new handle and any history of calls and engine
  notifications that contains no upgrade notification and no success notification: a
  handle never opened, an open still pending, an open that the engine rejected. After it
  every data operation and every schema operation fails with NotOpen and changes
  nothing.
\<close>

theorem operations_before_any_database_notification:
  assumes "list_all without_database history"
  shows "(let w = app (run history (start e)) in
       add storeName data w = (Inl NotOpen, w)
     \<and> get storeName key w = (Inl NotOpen, w)
     \<and> put storeName data w = (Inl NotOpen, w)
     \<and> delete storeName key w = (Inl NotOpen, w)
     \<and> clear storeName w = (Inl NotOpen, w)
     \<and> getAll storeName w = (Inl NotOpen, w)
     \<and> count storeName w = (Inl NotOpen, w)
     \<and> createStore storeName options w = (Inl NotOpen, w)
     \<and> createIndex storeName indexName kp ioptions w = (Inl NotOpen, w))"
proof -
  have "db (handle (app (start e))) = None"
    by (simp add: start_def new_SimpleIDB_def)
  with assms have "db (handle (app (run history (start e)))) = None"
    by (simp add: run_without_database)
  then show ?thesis
    unfolding Let_def by (rule every_operation_NotOpen)
qed

text \<open>A history with a rejected open, a data call, a close and a second, pending
  open.\<close>

theorem operations_before_any_database_notification_witness:
  "list_all without_database rejected_open
   \<and> (let w = app (run rejected_open (start browser)) in
       add ''users'' (JObject [(''id'', JNumber 1)]) w = (Inl NotOpen, w)
     \<and> get ''users'' (JNumber 1) w = (Inl NotOpen, w)
     \<and> put ''users'' (JObject [(''id'', JNumber 1)]) w = (Inl NotOpen, w)
     \<and> delete ''users'' (JNumber 1) w = (Inl NotOpen, w)
     \<and> clear ''users'' w = (Inl NotOpen, w)
     \<and> getAll ''users'' w = (Inl NotOpen, w)
     \<and> count ''users'' w = (Inl NotOpen, w)
     \<and> createStore ''users'' None w = (Inl NotOpen, w)
     \<and> createIndex ''users'' ''email'' ''email'' None w = (Inl NotOpen, w))"
proof -
  have h: "list_all without_database rejected_open"
    by (simp add: rejected_open_def)
  from h operations_before_any_database_notification [OF h, of browser "''users''"
      "JObject [(''id'', JNumber 1)]" "JNumber 1" None "''email''" "''email''" None]
  show ?thesis by (rule conjI)
qed

text \<open>Claim C3 as stated fails. While the first open is pending after its upgrade
  notification, and after the engine has reported that open as failed, no open has
  succeeded, and the handle holds the database reference that the upgrade handler
  stored: \<open>createStore\<close> returns normally and \<open>add\<close> does not fail with NotOpen.\<close>

theorem operations_during_pending_or_failed_open:
  "no_open_succeeded pending_open
   \<and> fst (createStore ''users'' None (app pending_open)) = Inr ()
   \<and> no_open_succeeded failed_open
   \<and> fst (add ''users'' (JObject [(''id'', JNumber 1)]) (app failed_open)) \<noteq> Inl NotOpen"
proof -
  have a: "no_open_succeeded pending_open"
    by (simp add: no_open_succeeded_def promise_pending_open)
  have b: "fst (createStore ''users'' None (app pending_open)) = Inr ()"
    by (simp add: app_pending_open createStore_existing [OF shop_facts(1) shop_facts(3)])
  have c: "no_open_succeeded failed_open"
    by (simp add: no_open_succeeded_def promise_failed_open)
  have "db (handle (app failed_open)) = Some shop_connection"
    by (simp add: app_failed_open)
  then have d: "fst (add ''users'' (JObject [(''id'', JNumber 1)]) (app failed_open)) \<noteq> Inl NotOpen"
    by (simp add: add_def kinds_distinct AddFailed_def NotOpen_def
          split: prod.splits sum.splits completion.splits)
  from a b c d show ?thesis by blast
qed


section \<open>close\<close>

text \<open>
  Claim C9, as the code has it. \<open>close\<close> has no failing outcome; it clears the database
  reference of the handle, a second call changes nothing more, and without a database
  reference it changes nothing at all. After a \<open>close\<close>, through any history without an
  upgrade notification and without a success notification, every data operation and
  every schema operation fails with NotOpen.
\<close>

theorem close_then_NotOpen:
  "db (handle (close w)) = None
   \<and> close (close w) = close w
   \<and> (db (handle w) = None \<longrightarrow> close w = w)
   \<and> (list_all without_database history \<longrightarrow>
       (let w' = app (run history (sys\<lparr>app := close (app sys)\<rparr>)) in
          add storeName data w' = (Inl NotOpen, w')
        \<and> get storeName key w' = (Inl NotOpen, w')
        \<and> put storeName data w' = (Inl NotOpen, w')
        \<and> delete storeName key w' = (Inl NotOpen, w')
        \<and> clear storeName w' = (Inl NotOpen, w')
        \<and> getAll storeName w' = (Inl NotOpen, w')
        \<and> count storeName w' = (Inl NotOpen, w')
        \<and> createStore storeName options w' = (Inl NotOpen, w')
        \<and> createIndex storeName indexName kp ioptions w' = (Inl NotOpen, w')))"
proof (intro conjI impI)
  show closed: "db (handle (close w)) = None" by (simp add: close_handle)
  then show "close (close w) = close w" by (rule close_unopened)
  show "close w = w" if "db (handle w) = None" using that by (rule close_unopened)
next
  assume quiet: "list_all without_database history"
  have "db (handle (app (sys\<lparr>app := close (app sys)\<rparr>))) = None"
    by (simp add: close_handle)
  with quiet have "db (handle (app (run history (sys\<lparr>app := close (app sys)\<rparr>)))) = None"
    by (simp add: run_without_database)
  then show "(let w' = app (run history (sys\<lparr>app := close (app sys)\<rparr>)) in
          add storeName data w' = (Inl NotOpen, w')
        \<and> get storeName key w' = (Inl NotOpen, w')
        \<and> put storeName data w' = (Inl NotOpen, w')
        \<and> delete storeName key w' = (Inl NotOpen, w')
        \<and> clear storeName w' = (Inl NotOpen, w')
        \<and> getAll storeName w' = (Inl NotOpen, w')
        \<and> count storeName w' = (Inl NotOpen, w')
        \<and> createStore storeName options w' = (Inl NotOpen, w')
        \<and> createIndex storeName indexName kp ioptions w' = (Inl NotOpen, w'))"
    unfolding Let_def by (rule every_operation_NotOpen)
qed

text \<open>Closing a handle that was never opened, closing the opened \<open>shop\<close> twice, and a
  history after the close in which a new open is rejected.\<close>

theorem close_then_NotOpen_witness:
  "db (handle (app (start browser))) = None
   \<and> close (app (start browser)) = app (start browser)
   \<and> db (handle (close (app shop))) = None
   \<and> close (close (app shop)) = close (app shop)
   \<and> list_all without_database closing_twice
   \<and> (let w' = app (run closing_twice (shop\<lparr>app := close (app shop)\<rparr>)) in
          add ''users'' (JObject [(''id'', JNumber 1)]) w' = (Inl NotOpen, w')
        \<and> get ''users'' (JNumber 1) w' = (Inl NotOpen, w')
        \<and> put ''users'' (JObject [(''id'', JNumber 1)]) w' = (Inl NotOpen, w')
        \<and> delete ''users'' (JNumber 1) w' = (Inl NotOpen, w')
        \<and> clear ''users'' w' = (Inl NotOpen, w')
        \<and> getAll ''users'' w' = (Inl NotOpen, w')
        \<and> count ''users'' w' = (Inl NotOpen, w')
        \<and> createStore ''users'' None w' = (Inl NotOpen, w')
        \<and> createIndex ''users'' ''email'' ''email'' None w' = (Inl NotOpen, w'))"
proof -
  note never = close_then_NotOpen [of "app (start browser)" closing_twice shop "''users''"
      "JObject [(''id'', JNumber 1)]" "JNumber 1" None "''email''" "''email''" None]
  note opened = close_then_NotOpen [of "app shop" closing_twice shop "''users''"
      "JObject [(''id'', JNumber 1)]" "JNumber 1" None "''email''" "''email''" None]
  have a: "db (handle (app (start browser))) = None"
    by (simp add: start_def new_SimpleIDB_def)
  have b: "close (app (start browser)) = app (start browser)"
    using never [THEN conjunct2, THEN conjunct2, THEN conjunct1] a by (rule mp)
  have h: "list_all without_database closing_twice"
    by (simp add: closing_twice_def)
  note c = opened [THEN conjunct1]
  note d = opened [THEN conjunct2, THEN conjunct1]
  note e = opened [THEN conjunct2, THEN conjunct2, THEN conjunct2, THEN mp, OF h]
  from a b c d h e show ?thesis by blast
qed

text \<open>Claim C9 as stated fails. After \<open>shop\<close> is closed and opened again, the upgrade
  notification of the new open arrives while its promise is still pending: the callback
  has declared \<open>orders\<close> through the handle, and \<open>createStore\<close> returns normally
  although no new open has resolved.\<close>

theorem operations_after_close_during_upgrade:
  "map promise (requests reopening) = [Some (Inr ()), None]
   \<and> objectStoreNames_contains reopened_connection ''orders'' (host (app reopening))
   \<and> \<not> objectStoreNames_contains shop_connection ''orders'' (host (app shop))
   \<and> fst (createStore ''orders'' None (app reopening)) = Inr ()"
proof -
  have a: "objectStoreNames_contains reopened_connection ''orders'' (host (app reopening))"
    by (simp add: app_reopening objectStoreNames_contains_def reopened_connection_def browser_def)
  have "db (handle (app reopening)) = Some reopened_connection"
    by (simp add: app_reopening)
  then have "createStore ''orders'' None (app reopening) = (Inr (), app reopening)"
    using a by (rule createStore_existing)
  with a promise_reopening shop_facts(4) show ?thesis by simp
qed

section \<open>open\<close>

text \<open>
  Claim C8: for every database name, version and upgrade callback, \<open>open\<close> on a host
  without the storage capability is rejected with UnsupportedEnvironment and leaves the
  whole system as it was: the engine receives no call and no open request is created.
\<close>

theorem open_unsupported_environment:
  assumes "\<not> indexedDB_in_self (host (app sys))"
  shows "open dbName version upgradeCallback sys = (Inl UnsupportedEnvironment, sys)"
  using assms by (simp add: open_def)

text \<open>A new handle on a host without the storage capability.\<close>

theorem open_unsupported_environment_witness:
  "\<not> indexedDB_in_self (host (app (start worker_without_storage)))
   \<and> open ''shop'' 1 (Some declare_users) (start worker_without_storage)
       = (Inl UnsupportedEnvironment, start worker_without_storage)
   \<and> calls (host (app (snd (open ''shop'' 1 (Some declare_users) (start worker_without_storage)))))
       = []
   \<and> requests (snd (open ''shop'' 1 (Some declare_users) (start worker_without_storage))) = []"
proof -
  have h: "\<not> indexedDB_in_self (host (app (start worker_without_storage)))"
    by (simp add: start_def worker_without_storage_def browser_def)
  note r = open_unsupported_environment [OF h, of "''shop''" 1 "Some declare_users"]
  have "calls (host (app (start worker_without_storage))) = []"
    "requests (start worker_without_storage) = []"
    by (simp_all add: start_def worker_without_storage_def browser_def)
  with h r show ?thesis by simp
qed

section \<open>The upgrade context\<close>

lemma onupgradeneeded_returns:
  "fst (onupgradeneeded upgradeCallback target w) = None \<Longrightarrow>
   upgradeTransaction (handle (snd (onupgradeneeded upgradeCallback target w))) = None"
  by (auto simp add: onupgradeneeded_def Let_def split: option.splits prod.splits)

lemma onsuccess_clears: "upgradeTransaction (handle (onsuccess target w)) = None"
  by (simp add: onsuccess_def Let_def)

text \<open>
  Claim C4 at a callback that throws. \<open>shop\<close> is closed and opened again at version 2
  with a callback that throws. After the upgrade notification the engine has no live
  upgrade transaction, but the handle still holds the upgrade context: \<open>createIndex\<close>
  on the existing store \<open>users\<close> does not fail with IndexCreationOutsideUpgrade; it
  asks the stale transaction for the store and fails with the engine's exception.
\<close>

theorem stale_upgrade_context_after_throwing_callback:
  "map promise (requests failed_migration) = [Some (Inr ()), None]
   \<and> upgradeTransaction (handle (app failed_migration)) = Some stale_transaction
   \<and> upgrading (host (app failed_migration)) = None
   \<and> objectStoreNames_contains reopened_connection ''users'' (host (app failed_migration))
   \<and> fst (createIndex ''users'' ''email'' ''email'' None (app failed_migration))
       = Inl (Thrown (DOMException InvalidStateError ''engine diagnostic''))
   \<and> calls (host (snd (createIndex ''users'' ''email'' ''email'' None (app failed_migration))))
       = calls (host (app failed_migration)) @ [Call_objectStore ''users'']
   \<and> fst (createIndex ''users'' ''email'' ''email'' None (app failed_migration))
       \<noteq> Inl IndexCreationOutsideUpgrade"
proof -
  have p: "map promise (requests failed_migration) = [Some (Inr ()), None]"
    by (simp add: failed_migration_def system_shop scenario_defs)
  have r: "createIndex ''users'' ''email'' ''email'' None (app failed_migration)
      = (Inl (Thrown (DOMException InvalidStateError ''engine diagnostic'')),
         (app failed_migration)\<lparr>host := called (Call_objectStore ''users'')
            (host (app failed_migration))\<rparr>)"
    by (simp add: app_failed_migration createIndex_def objectStoreNames_contains_def
          objectStore_def called_def raise_def browser_def reopened_connection_def
          stale_transaction_def Let_def)
  have c: "objectStoreNames_contains reopened_connection ''users'' (host (app failed_migration))"
    by (simp add: app_failed_migration objectStoreNames_contains_def reopened_connection_def
          browser_def)
  have t: "upgradeTransaction (handle (app failed_migration)) = Some stale_transaction"
    "upgrading (host (app failed_migration)) = None"
    by (simp_all add: app_failed_migration browser_def)
  from r have v: "fst (createIndex ''users'' ''email'' ''email'' None (app failed_migration))
      = Inl (Thrown (DOMException InvalidStateError ''engine diagnostic''))"
    by simp
  from r have l: "calls (host (snd (createIndex ''users'' ''email'' ''email'' None
        (app failed_migration))))
      = calls (host (app failed_migration)) @ [Call_objectStore ''users'']"
    by (simp add: called_def)
  from v have n: "fst (createIndex ''users'' ''email'' ''email'' None (app failed_migration))
       \<noteq> Inl IndexCreationOutsideUpgrade"
    by (simp add: kinds_distinct)
  from p t c v l n show ?thesis by blast
qed

section \<open>Engine calls of the data operations\<close>

lemma transaction_started:
  assumes "transaction_accepted d storeName e"
  shows "transaction d [storeName] mode e =
     (Inr \<lparr>transaction_id = fresh e, transaction_db = d,
           transaction_scope = [storeName], transaction_mode = mode\<rparr>,
      (called (Call_transaction [storeName] mode) e)\<lparr>fresh := Suc (fresh e)\<rparr>)"
  using assms
  by (simp add: transaction_def transaction_accepted_def called_def Let_def split: option.splits)

lemma transaction_refused:
  assumes "\<not> transaction_accepted d storeName e"
  shows "\<exists>ex. transaction d [storeName] mode e =
     (Inl ex, called (Call_transaction [storeName] mode) e)"
  using assms
  by (auto simp add: transaction_def transaction_accepted_def called_def Let_def
        split: option.splits)

lemma accessor_obtained:
  assumes "transaction_accepted d storeName e" and "mode \<noteq> versionchange"
  shows "objectStore \<lparr>transaction_id = fresh e, transaction_db = d,
           transaction_scope = [storeName], transaction_mode = mode\<rparr> storeName
           ((called (Call_transaction [storeName] mode) e)\<lparr>fresh := Suc (fresh e)\<rparr>) =
     (Inr (store_accessor d storeName mode e), with_accessor storeName mode e)"
  using assms
  by (simp add: objectStore_def called_def Let_def transaction_accepted_def
        store_accessor_def with_accessor_def)

lemma accepted_operations:
  assumes "db (handle w) = Some d" and "transaction_accepted d storeName (host w)"
  shows "add storeName data w =
       (case store_add (store_accessor d storeName readwrite (host w)) data
               (with_accessor storeName readwrite (host w)) of
          (Throws ex, e3) \<Rightarrow> (Inl (Thrown ex), w\<lparr>host := e3\<rparr>)
        | (Fires_error err, e3) \<Rightarrow> (Inl (AddFailed err), w\<lparr>host := e3\<rparr>)
        | (Fires_success r, e3) \<Rightarrow> (Inr (), w\<lparr>host := e3\<rparr>))"
    and "get storeName key w =
       (case store_get (store_accessor d storeName readonly (host w)) key
               (with_accessor storeName readonly (host w)) of
          (Throws ex, e3) \<Rightarrow> (Inl (Thrown ex), w\<lparr>host := e3\<rparr>)
        | (Fires_error err, e3) \<Rightarrow> (Inl (GetFailed err), w\<lparr>host := e3\<rparr>)
        | (Fires_success r, e3) \<Rightarrow> (Inr r, w\<lparr>host := e3\<rparr>))"
    and "put storeName data w =
       (case store_put (store_accessor d storeName readwrite (host w)) data
               (with_accessor storeName readwrite (host w)) of
          (Throws ex, e3) \<Rightarrow> (Inl (Thrown ex), w\<lparr>host := e3\<rparr>)
        | (Fires_error err, e3) \<Rightarrow> (Inl (PutFailed err), w\<lparr>host := e3\<rparr>)
        | (Fires_success r, e3) \<Rightarrow> (Inr (), w\<lparr>host := e3\<rparr>))"
    and "delete storeName key w =
       (case store_delete (store_accessor d storeName readwrite (host w)) key
               (with_accessor storeName readwrite (host w)) of
          (Throws ex, e3) \<Rightarrow> (Inl (Thrown ex), w\<lparr>host := e3\<rparr>)
        | (Fires_error err, e3) \<Rightarrow> (Inl (DeleteFailed err), w\<lparr>host := e3\<rparr>)
        | (Fires_success r, e3) \<Rightarrow> (Inr (), w\<lparr>host := e3\<rparr>))"
    and "clear storeName w =
       (case store_clear (store_accessor d storeName readwrite (host w))
               (with_accessor storeName readwrite (host w)) of
          (Throws ex, e3) \<Rightarrow> (Inl (Thrown ex), w\<lparr>host := e3\<rparr>)
        | (Fires_error err, e3) \<Rightarrow> (Inl (ClearFailed err), w\<lparr>host := e3\<rparr>)
        | (Fires_success r, e3) \<Rightarrow> (Inr (), w\<lparr>host := e3\<rparr>))"
    and "getAll storeName w =
       (case store_getAll (store_accessor d storeName readonly (host w))
               (with_accessor storeName readonly (host w)) of
          (Throws ex, e3) \<Rightarrow> (Inl (Thrown ex), w\<lparr>host := e3\<rparr>)
        | (Fires_error err, e3) \<Rightarrow> (Inl (GetAllFailed err), w\<lparr>host := e3\<rparr>)
        | (Fires_success r, e3) \<Rightarrow> (Inr r, w\<lparr>host := e3\<rparr>))"
    and "count storeName w =
       (case store_count (store_accessor d storeName readonly (host w))
               (with_accessor storeName readonly (host w)) of
          (Throws ex, e3) \<Rightarrow> (Inl (Thrown ex), w\<lparr>host := e3\<rparr>)
        | (Fires_error err, e3) \<Rightarrow> (Inl (CountFailed err), w\<lparr>host := e3\<rparr>)
        | (Fires_success r, e3) \<Rightarrow> (Inr r, w\<lparr>host := e3\<rparr>))"
  using assms
  by (simp_all add: add_def get_def put_def delete_def clear_def getAll_def count_def
        transaction_started accessor_obtained)

text \<open>When the engine refuses the transaction (the store is not declared, the connection
  is closed or in an upgrade), the transaction call is the only engine call and the
  operation is rejected with the engine's exception.\<close>

lemma refused_operations:
  assumes "db (handle w) = Some d" and "\<not> transaction_accepted d storeName (host w)"
  shows "\<exists>ex. add storeName data w =
            (Inl (Thrown ex), w\<lparr>host := called (Call_transaction [storeName] readwrite) (host w)\<rparr>)"
    and "\<exists>ex. get storeName key w =
            (Inl (Thrown ex), w\<lparr>host := called (Call_transaction [storeName] readonly) (host w)\<rparr>)"
    and "\<exists>ex. put storeName data w =
            (Inl (Thrown ex), w\<lparr>host := called (Call_transaction [storeName] readwrite) (host w)\<rparr>)"
    and "\<exists>ex. delete storeName key w =
            (Inl (Thrown ex), w\<lparr>host := called (Call_transaction [storeName] readwrite) (host w)\<rparr>)"
    and "\<exists>ex. clear storeName w =
            (Inl (Thrown ex), w\<lparr>host := called (Call_transaction [storeName] readwrite) (host w)\<rparr>)"
    and "\<exists>ex. getAll storeName w =
            (Inl (Thrown ex), w\<lparr>host := called (Call_transaction [storeName] readonly) (host w)\<rparr>)"
    and "\<exists>ex. count storeName w =
            (Inl (Thrown ex), w\<lparr>host := called (Call_transaction [storeName] readonly) (host w)\<rparr>)"
proof -
  from assms(2) obtain rw where rw: "transaction d [storeName] readwrite (host w) =
      (Inl rw, called (Call_transaction [storeName] readwrite) (host w))"
    using transaction_refused by blast
  from assms(2) obtain ro where ro: "transaction d [storeName] readonly (host w) =
      (Inl ro, called (Call_transaction [storeName] readonly) (host w))"
    using transaction_refused by blast
  from assms(1) rw ro
  show "\<exists>ex. add storeName data w =
            (Inl (Thrown ex), w\<lparr>host := called (Call_transaction [storeName] readwrite) (host w)\<rparr>)"
    and "\<exists>ex. get storeName key w =
            (Inl (Thrown ex), w\<lparr>host := called (Call_transaction [storeName] readonly) (host w)\<rparr>)"
    and "\<exists>ex. put storeName data w =
            (Inl (Thrown ex), w\<lparr>host := called (Call_transaction [storeName] readwrite) (host w)\<rparr>)"
    and "\<exists>ex. delete storeName key w =
            (Inl (Thrown ex), w\<lparr>host := called (Call_transaction [storeName] readwrite) (host w)\<rparr>)"
    and "\<exists>ex. clear storeName w =
            (Inl (Thrown ex), w\<lparr>host := called (Call_transaction [storeName] readwrite) (host w)\<rparr>)"
    and "\<exists>ex. getAll storeName w =
            (Inl (Thrown ex), w\<lparr>host := called (Call_transaction [storeName] readonly) (host w)\<rparr>)"
    and "\<exists>ex. count storeName w =
            (Inl (Thrown ex), w\<lparr>host := called (Call_transaction [storeName] readonly) (host w)\<rparr>)"
    by (simp_all add: add_def get_def put_def delete_def clear_def getAll_def count_def)
qed

lemma calls_of_requests:
  "calls (snd (store_add os v e)) = calls e @ [Call_request (Request_add v)]"
  "calls (snd (store_get os k e)) = calls e @ [Call_request (Request_get k)]"
  "calls (snd (store_put os v e)) = calls e @ [Call_request (Request_put v)]"
  "calls (snd (store_delete os k e)) = calls e @ [Call_request (Request_delete k)]"
  "calls (snd (store_clear os e)) = calls e @ [Call_request Request_clear]"
  "calls (snd (store_getAll os e)) = calls e @ [Call_request Request_getAll]"
  "calls (snd (store_count os e)) = calls e @ [Call_request Request_count]"
  by (simp_all add: store_add_def store_get_def store_put_def store_delete_def store_clear_def
        store_getAll_def store_count_def called_def store_update_def Let_def
        split: option.splits prod.splits)

lemma calls_with_accessor:
  "calls (with_accessor storeName mode e)
     = calls e @ [Call_transaction [storeName] mode, Call_objectStore storeName]"
  by (simp add: with_accessor_def called_def)

lemma host_of_outcome:
  "host (snd (case c of
       (Throws ex, e3) \<Rightarrow> (f ex, w\<lparr>host := e3\<rparr>)
     | (Fires_error err, e3) \<Rightarrow> (g err, w\<lparr>host := e3\<rparr>)
     | (Fires_success r, e3) \<Rightarrow> (h r, w\<lparr>host := e3\<rparr>))) = snd c"
  by (cases c) (simp split: completion.splits)

lemma shop_accepts: "transaction_accepted shop_connection ''users'' (host (app shop))"
  by (simp add: transaction_accepted_def app_shop browser_def shop_connection_def)

lemma shop_refuses: "\<not> transaction_accepted shop_connection ''orders'' (host (app shop))"
  by (simp add: transaction_accepted_def app_shop browser_def shop_connection_def)

lemma shop_calls:
  "calls (host (app shop))
     = [Call_open ''shop'' 1, Call_createObjectStore ''users'' (Some ''id'') False]"
  by (simp add: app_shop)

text \<open>
  Claim C7: on an open handle every data operation makes exactly one transaction call
  of the engine, scoped to the named store alone, read-only for \<open>get\<close>, \<open>getAll\<close> and
  \<open>count\<close> and read-write for \<open>add\<close>, \<open>put\<close>, \<open>delete\<close> and \<open>clear\<close>. When the
  engine starts the transaction (the store exists and the connection is neither closed
  nor in an upgrade), the operation goes on with the store accessor call of that
  transaction and exactly one request. When the engine refuses the call, the
  transaction call is the only engine call: no request is issued and the operation
  fails with the exception of the engine.
\<close>

theorem one_transaction_one_request:
  assumes "db (handle w) = Some d"
  shows "(transaction_accepted d storeName (host w) \<longrightarrow>
       calls (host (snd (add storeName data w)))
           = calls (host w) @ engine_calls storeName readwrite (Request_add data)
     \<and> calls (host (snd (get storeName key w)))
           = calls (host w) @ engine_calls storeName readonly (Request_get key)
     \<and> calls (host (snd (put storeName data w)))
           = calls (host w) @ engine_calls storeName readwrite (Request_put data)
     \<and> calls (host (snd (delete storeName key w)))
           = calls (host w) @ engine_calls storeName readwrite (Request_delete key)
     \<and> calls (host (snd (clear storeName w)))
           = calls (host w) @ engine_calls storeName readwrite Request_clear
     \<and> calls (host (snd (getAll storeName w)))
           = calls (host w) @ engine_calls storeName readonly Request_getAll
     \<and> calls (host (snd (count storeName w)))
           = calls (host w) @ engine_calls storeName readonly Request_count)
   \<and> (\<not> transaction_accepted d storeName (host w) \<longrightarrow>
       (\<exists>ex. add storeName data w =
            (Inl (Thrown ex), w\<lparr>host := called (Call_transaction [storeName] readwrite) (host w)\<rparr>))
     \<and> (\<exists>ex. get storeName key w =
            (Inl (Thrown ex), w\<lparr>host := called (Call_transaction [storeName] readonly) (host w)\<rparr>))
     \<and> (\<exists>ex. put storeName data w =
            (Inl (Thrown ex), w\<lparr>host := called (Call_transaction [storeName] readwrite) (host w)\<rparr>))
     \<and> (\<exists>ex. delete storeName key w =
            (Inl (Thrown ex), w\<lparr>host := called (Call_transaction [storeName] readwrite) (host w)\<rparr>))
     \<and> (\<exists>ex. clear storeName w =
            (Inl (Thrown ex), w\<lparr>host := called (Call_transaction [storeName] readwrite) (host w)\<rparr>))
     \<and> (\<exists>ex. getAll storeName w =
            (Inl (Thrown ex), w\<lparr>host := called (Call_transaction [storeName] readonly) (host w)\<rparr>))
     \<and> (\<exists>ex. count storeName w =
            (Inl (Thrown ex), w\<lparr>host := called (Call_transaction [storeName] readonly) (host w)\<rparr>)))"
proof (intro conjI impI)
  assume acc: "transaction_accepted d storeName (host w)"
  note ops = accepted_operations [OF assms acc]
  show "calls (host (snd (add storeName data w)))
           = calls (host w) @ engine_calls storeName readwrite (Request_add data)"
    by (simp add: ops host_of_outcome calls_of_requests calls_with_accessor engine_calls_def)
  show "calls (host (snd (get storeName key w)))
           = calls (host w) @ engine_calls storeName readonly (Request_get key)"
    by (simp add: ops host_of_outcome calls_of_requests calls_with_accessor engine_calls_def)
  show "calls (host (snd (put storeName data w)))
           = calls (host w) @ engine_calls storeName readwrite (Request_put data)"
    by (simp add: ops host_of_outcome calls_of_requests calls_with_accessor engine_calls_def)
  show "calls (host (snd (delete storeName key w)))
           = calls (host w) @ engine_calls storeName readwrite (Request_delete key)"
    by (simp add: ops host_of_outcome calls_of_requests calls_with_accessor engine_calls_def)
  show "calls (host (snd (clear storeName w)))
           = calls (host w) @ engine_calls storeName readwrite Request_clear"
    by (simp add: ops host_of_outcome calls_of_requests calls_with_accessor engine_calls_def)
  show "calls (host (snd (getAll storeName w)))
           = calls (host w) @ engine_calls storeName readonly Request_getAll"
    by (simp add: ops host_of_outcome calls_of_requests calls_with_accessor engine_calls_def)
  show "calls (host (snd (count storeName w)))
           = calls (host w) @ engine_calls storeName readonly Request_count"
    by (simp add: ops host_of_outcome calls_of_requests calls_with_accessor engine_calls_def)
next
  assume ref: "\<not> transaction_accepted d storeName (host w)"
  note ops = refused_operations [OF assms ref]
  show "\<exists>ex. add storeName data w =
            (Inl (Thrown ex), w\<lparr>host := called (Call_transaction [storeName] readwrite) (host w)\<rparr>)"
    by (rule ops)
  show "\<exists>ex. get storeName key w =
            (Inl (Thrown ex), w\<lparr>host := called (Call_transaction [storeName] readonly) (host w)\<rparr>)"
    by (rule ops)
  show "\<exists>ex. put storeName data w =
            (Inl (Thrown ex), w\<lparr>host := called (Call_transaction [storeName] readwrite) (host w)\<rparr>)"
    by (rule ops)
  show "\<exists>ex. delete storeName key w =
            (Inl (Thrown ex), w\<lparr>host := called (Call_transaction [storeName] readwrite) (host w)\<rparr>)"
    by (rule ops)
  show "\<exists>ex. clear storeName w =
            (Inl (Thrown ex), w\<lparr>host := called (Call_transaction [storeName] readwrite) (host w)\<rparr>)"
    by (rule ops)
  show "\<exists>ex. getAll storeName w =
            (Inl (Thrown ex), w\<lparr>host := called (Call_transaction [storeName] readonly) (host w)\<rparr>)"
    by (rule ops)
  show "\<exists>ex. count storeName w =
            (Inl (Thrown ex), w\<lparr>host := called (Call_transaction [storeName] readonly) (host w)\<rparr>)"
    by (rule ops)
qed

text \<open>
  The seven operations on the store \<open>users\<close> of the opened \<open>shop\<close>, and \<open>put\<close> and
  \<open>count\<close> on the store \<open>orders\<close>, which the shop never declared.
\<close>

theorem one_transaction_one_request_witness:
  "db (handle (app shop)) = Some shop_connection
   \<and> transaction_accepted shop_connection ''users'' (host (app shop))
   \<and> calls (host (snd (add ''users'' john (app shop))))
       = calls (host (app shop))
         @ [Call_transaction [''users''] readwrite, Call_objectStore ''users'',
            Call_request (Request_add john)]
   \<and> calls (host (snd (get ''users'' (JString ''1'') (app shop))))
       = calls (host (app shop))
         @ [Call_transaction [''users''] readonly, Call_objectStore ''users'',
            Call_request (Request_get (JString ''1''))]
   \<and> calls (host (snd (put ''users'' john (app shop))))
       = calls (host (app shop))
         @ [Call_transaction [''users''] readwrite, Call_objectStore ''users'',
            Call_request (Request_put john)]
   \<and> calls (host (snd (delete ''users'' (JString ''1'') (app shop))))
       = calls (host (app shop))
         @ [Call_transaction [''users''] readwrite, Call_objectStore ''users'',
            Call_request (Request_delete (JString ''1''))]
   \<and> calls (host (snd (clear ''users'' (app shop))))
       = calls (host (app shop))
         @ [Call_transaction [''users''] readwrite, Call_objectStore ''users'',
            Call_request Request_clear]
   \<and> calls (host (snd (getAll ''users'' (app shop))))
       = calls (host (app shop))
         @ [Call_transaction [''users''] readonly, Call_objectStore ''users'',
            Call_request Request_getAll]
   \<and> calls (host (snd (count ''users'' (app shop))))
       = calls (host (app shop))
         @ [Call_transaction [''users''] readonly, Call_objectStore ''users'',
            Call_request Request_count]
   \<and> \<not> transaction_accepted shop_connection ''orders'' (host (app shop))
   \<and> (\<exists>ex. put ''orders'' john (app shop) =
          (Inl (Thrown ex),
           (app shop)\<lparr>host := called (Call_transaction [''orders''] readwrite) (host (app shop))\<rparr>))
   \<and> (\<exists>ex. count ''orders'' (app shop) =
          (Inl (Thrown ex),
           (app shop)\<lparr>host := called (Call_transaction [''orders''] readonly) (host (app shop))\<rparr>))"
proof -
  note users = one_transaction_one_request
      [OF shop_facts(1), of "''users''" john "JString ''1''", THEN conjunct1, THEN mp,
       OF shop_accepts]
  note orders = one_transaction_one_request
      [OF shop_facts(1), of "''orders''" john "JString ''1''", THEN conjunct2, THEN mp,
       OF shop_refuses]
  from orders have refused: "\<exists>ex. put ''orders'' john (app shop) =
          (Inl (Thrown ex),
           (app shop)\<lparr>host := called (Call_transaction [''orders''] readwrite) (host (app shop))\<rparr>)"
      "\<exists>ex. count ''orders'' (app shop) =
          (Inl (Thrown ex),
           (app shop)\<lparr>host := called (Call_transaction [''orders''] readonly) (host (app shop))\<rparr>)"
    by blast+
  from shop_facts(1) shop_accepts users shop_refuses refused show ?thesis
    unfolding engine_calls_def by (intro conjI) (elim conjE, assumption)+
qed

text \<open>
  Claim C7 as stated, with a request for every data operation on an open handle, fails
  for a store that was never declared: \<open>get\<close> on \<open>orders\<close> of the opened \<open>shop\<close> makes
  the transaction call, the engine answers with its not-found exception, and no request
  follows.
\<close>

theorem no_request_for_missing_store:
  "db (handle (app shop)) = Some shop_connection
   \<and> upgradeTransaction (handle (app shop)) = None
   \<and> \<not> objectStoreNames_contains shop_connection ''orders'' (host (app shop))
   \<and> get ''orders'' (JString ''1'') (app shop)
       = (Inl (Thrown (DOMException NotFoundError ''engine diagnostic'')),
          (app shop)\<lparr>host := called (Call_transaction [''orders''] readonly) (host (app shop))\<rparr>)
   \<and> calls (host (snd (get ''orders'' (JString ''1'') (app shop))))
       = calls (host (app shop)) @ [Call_transaction [''orders''] readonly]"
proof -
  have t: "transaction shop_connection [''orders''] readonly (host (app shop))
      = (Inl (DOMException NotFoundError ''engine diagnostic''),
         called (Call_transaction [''orders''] readonly) (host (app shop)))"
    by (simp add: transaction_def app_shop called_def raise_def browser_def
          shop_connection_def Let_def)
  have g: "get ''orders'' (JString ''1'') (app shop)
       = (Inl (Thrown (DOMException NotFoundError ''engine diagnostic'')),
          (app shop)\<lparr>host := called (Call_transaction [''orders''] readonly) (host (app shop))\<rparr>)"
    by (simp add: get_def shop_facts(1) t)
  then have c: "calls (host (snd (get ''orders'' (JString ''1'') (app shop))))
       = calls (host (app shop)) @ [Call_transaction [''orders''] readonly]"
    by (simp add: called_def)
  from shop_facts(1) shop_facts(2) shop_facts(4) g c show ?thesis by blast
qed


section \<open>Reading back what was put\<close>

lemma map_of_record_put:
  "map_of (record_put k v rs) k' = (if k' = k then Some v else map_of rs k')"
  by (induction rs) auto

lemma map_of_record_delete:
  "map_of (record_delete k rs) k' = (if k' = k then None else map_of rs k')"
  by (induction rs) auto

lemma with_accessor_storage:
  "databases (with_accessor storeName mode e) = databases e"
  "upgrading (with_accessor storeName mode e) = upgrading e"
  "closed (with_accessor storeName mode e) = closed e"
  by (simp_all add: with_accessor_def called_def)

lemma store_of_accessor:
  "store_of (store_accessor d storeName mode e) e' = databases e' (connection_name d) storeName"
  by (simp add: store_of_def store_accessor_def)

lemma accessor_mode:
  "transaction_mode (objectStore_transaction (store_accessor d storeName mode e)) = mode"
  by (simp add: store_accessor_def)

lemma store_update_accessor:
  "databases (store_update (store_accessor d storeName mode e) st e')
     = (databases e')(connection_name d := (databases e' (connection_name d))(storeName \<mapsto> st))"
  "upgrading (store_update (store_accessor d storeName mode e) st e') = upgrading e'"
  "closed (store_update (store_accessor d storeName mode e) st e') = closed e'"
  by (simp_all add: store_update_def store_accessor_def Let_def)

lemma store_key_inline:
  assumes "store_keyPath st = Some kp" and "evaluate_keyPath kp v = Some k"
  shows "store_key st v = (if valid_key k then
      Some (k, v, (case k of JNumber n \<Rightarrow>
                      if store_autoIncrement st \<and> store_generator st \<le> n then n + 1
                      else store_generator st
                    | _ \<Rightarrow> store_generator st)) else None)"
  using assms by (simp add: store_key_def)

lemma put_holds:
  assumes "put storeName v w = (Inr (), w1)"
    and "db (handle w) = Some d"
    and "databases (host w) (connection_name d) storeName = Some st"
    and "store_keyPath st = Some kp"
    and "evaluate_keyPath kp v = Some k"
  shows "holds_record d storeName kp k v w1"
proof -
  have acc: "transaction_accepted d storeName (host w)"
  proof (rule ccontr)
    assume "\<not> transaction_accepted d storeName (host w)"
    with assms(2) obtain ex where "put storeName v w =
        (Inl (Thrown ex), w\<lparr>host := called (Call_transaction [storeName] readwrite) (host w)\<rparr>)"
      using refused_operations(3) by blast
    with assms(1) show False by simp
  qed
  have valid: "valid_key k"
  proof (rule ccontr)
    assume "\<not> valid_key k"
    with assms acc show False
      by (simp add: accepted_operations(3) store_put_def called_def store_of_accessor
            with_accessor_storage store_key_inline accessor_mode Let_def)
  qed
  from assms acc valid show ?thesis
    by (auto simp add: accepted_operations(3) store_put_def called_def store_of_accessor
          with_accessor_storage store_key_inline store_update_accessor holds_record_def
          transaction_accepted_def map_of_record_put Let_def accessor_mode
          split: if_splits)
qed

lemma holds_get:
  assumes "holds_record d storeName kp k v w"
  shows "fst (get storeName k w) = Inr v"
  using assms
  by (auto simp add: holds_record_def accepted_operations(2) store_get_def called_def
        store_of_accessor with_accessor_storage Let_def split: option.splits)


lemma handle_of_outcome:
  "handle (snd (case c of
       (Throws ex, e3) \<Rightarrow> (f ex, w\<lparr>host := e3\<rparr>)
     | (Fires_error err, e3) \<Rightarrow> (g err, w\<lparr>host := e3\<rparr>)
     | (Fires_success r, e3) \<Rightarrow> (h r, w\<lparr>host := e3\<rparr>))) = handle w"
  by (cases c) (simp split: completion.splits)

lemma data_operations_handle:
  "handle (snd (add storeName data w)) = handle w"
  "handle (snd (get storeName key w)) = handle w"
  "handle (snd (put storeName data w)) = handle w"
  "handle (snd (delete storeName key w)) = handle w"
  "handle (snd (clear storeName w)) = handle w"
  "handle (snd (getAll storeName w)) = handle w"
  "handle (snd (count storeName w)) = handle w"
  by (simp_all add: add_def get_def put_def delete_def clear_def getAll_def count_def
        split: option.splits prod.splits sum.splits completion.splits)

text \<open>What a request leaves of the stored data, the upgrade transaction and the closed
  connections.\<close>

lemma store_get_storage:
  "databases (snd (store_get os k e)) = databases e"
  "upgrading (snd (store_get os k e)) = upgrading e"
  "closed (snd (store_get os k e)) = closed e"
  by (simp_all add: store_get_def called_def Let_def split: option.splits)

lemma store_getAll_storage:
  "databases (snd (store_getAll os e)) = databases e"
  "upgrading (snd (store_getAll os e)) = upgrading e"
  "closed (snd (store_getAll os e)) = closed e"
  by (simp_all add: store_getAll_def called_def Let_def split: option.splits)

lemma store_count_storage:
  "databases (snd (store_count os e)) = databases e"
  "upgrading (snd (store_count os e)) = upgrading e"
  "closed (snd (store_count os e)) = closed e"
  by (simp_all add: store_count_def called_def Let_def split: option.splits)

lemma called_storage:
  "databases (called c e) = databases e"
  "upgrading (called c e) = upgrading e"
  "closed (called c e) = closed e"
  by (simp_all add: called_def)

lemma holds_record_storage:
  assumes "holds_record d storeName kp k v w"
    and "handle w' = handle w"
    and "upgrading (host w') = upgrading (host w)"
    and "closed (host w') = closed (host w)"
    and "databases (host w') (connection_name d) storeName
           = databases (host w) (connection_name d) storeName
         \<or> (\<exists>st rs g. databases (host w) (connection_name d) storeName = Some st
              \<and> databases (host w') (connection_name d) storeName
                  = Some (st\<lparr>store_records := rs, store_generator := g\<rparr>)
              \<and> map_of rs k = map_of (store_records st) k)"
  shows "holds_record d storeName kp k v w'"
  using assms
  by (auto simp add: holds_record_def transaction_accepted_def split: option.splits)

lemma reads_storage:
  "databases (host (snd (get s key w))) = databases (host w)
   \<and> upgrading (host (snd (get s key w))) = upgrading (host w)
   \<and> closed (host (snd (get s key w))) = closed (host w)"
  "databases (host (snd (getAll s w))) = databases (host w)
   \<and> upgrading (host (snd (getAll s w))) = upgrading (host w)
   \<and> closed (host (snd (getAll s w))) = closed (host w)"
  "databases (host (snd (count s w))) = databases (host w)
   \<and> upgrading (host (snd (count s w))) = upgrading (host w)
   \<and> closed (host (snd (count s w))) = closed (host w)"
proof -
  show "databases (host (snd (get s key w))) = databases (host w)
   \<and> upgrading (host (snd (get s key w))) = upgrading (host w)
   \<and> closed (host (snd (get s key w))) = closed (host w)"
  proof (cases "db (handle w)")
    case None
    then show ?thesis by (simp add: data_operations_NotOpen)
  next
    case (Some d)
    show ?thesis
    proof (cases "transaction_accepted d s (host w)")
      case True
      with Some show ?thesis
        by (simp add: accepted_operations host_of_outcome store_get_storage
              with_accessor_storage)
    next
      case False
      with Some obtain ex where "get s key w =
          (Inl (Thrown ex), w\<lparr>host := called (Call_transaction [s] readonly) (host w)\<rparr>)"
        using refused_operations(2) by blast
      then show ?thesis by (simp add: called_storage)
    qed
  qed
  show "databases (host (snd (getAll s w))) = databases (host w)
   \<and> upgrading (host (snd (getAll s w))) = upgrading (host w)
   \<and> closed (host (snd (getAll s w))) = closed (host w)"
  proof (cases "db (handle w)")
    case None
    then show ?thesis by (simp add: data_operations_NotOpen)
  next
    case (Some d)
    show ?thesis
    proof (cases "transaction_accepted d s (host w)")
      case True
      with Some show ?thesis
        by (simp add: accepted_operations host_of_outcome store_getAll_storage
              with_accessor_storage)
    next
      case False
      with Some obtain ex where "getAll s w =
          (Inl (Thrown ex), w\<lparr>host := called (Call_transaction [s] readonly) (host w)\<rparr>)"
        using refused_operations(6) by blast
      then show ?thesis by (simp add: called_storage)
    qed
  qed
  show "databases (host (snd (count s w))) = databases (host w)
   \<and> upgrading (host (snd (count s w))) = upgrading (host w)
   \<and> closed (host (snd (count s w))) = closed (host w)"
  proof (cases "db (handle w)")
    case None
    then show ?thesis by (simp add: data_operations_NotOpen)
  next
    case (Some d)
    show ?thesis
    proof (cases "transaction_accepted d s (host w)")
      case True
      with Some show ?thesis
        by (simp add: accepted_operations host_of_outcome store_count_storage
              with_accessor_storage)
    next
      case False
      with Some obtain ex where "count s w =
          (Inl (Thrown ex), w\<lparr>host := called (Call_transaction [s] readonly) (host w)\<rparr>)"
        using refused_operations(7) by blast
      then show ?thesis by (simp add: called_storage)
    qed
  qed
qed


lemma writes_flags:
  "upgrading (snd (store_add os v e)) = upgrading e"
  "closed (snd (store_add os v e)) = closed e"
  "upgrading (snd (store_put os v e)) = upgrading e"
  "closed (snd (store_put os v e)) = closed e"
  "upgrading (snd (store_delete os k e)) = upgrading e"
  "closed (snd (store_delete os k e)) = closed e"
  "upgrading (snd (store_clear os e)) = upgrading e"
  "closed (snd (store_clear os e)) = closed e"
  by (simp_all add: store_add_def store_put_def store_delete_def store_clear_def called_def
        store_update_def Let_def split: option.splits prod.splits)

lemma store_add_databases:
  "databases (snd (store_add (store_accessor d s mode e0) v e)) n x = databases e n x
   \<or> (n = connection_name d \<and> x = s
      \<and> (\<exists>st k' v' g. databases e n x = Some st \<and> store_key st v = Some (k', v', g)
            \<and> databases (snd (store_add (store_accessor d s mode e0) v e)) n x
                = Some (st\<lparr>store_records := record_put k' v' (store_records st),
                           store_generator := g\<rparr>)))"
  by (auto simp add: store_add_def called_def store_of_accessor store_update_accessor
        accessor_mode Let_def split: option.splits)

lemma store_put_databases:
  "databases (snd (store_put (store_accessor d s mode e0) v e)) n x = databases e n x
   \<or> (n = connection_name d \<and> x = s
      \<and> (\<exists>st k' v' g. databases e n x = Some st \<and> store_key st v = Some (k', v', g)
            \<and> databases (snd (store_put (store_accessor d s mode e0) v e)) n x
                = Some (st\<lparr>store_records := record_put k' v' (store_records st),
                           store_generator := g\<rparr>)))"
  by (auto simp add: store_put_def called_def store_of_accessor store_update_accessor
        accessor_mode Let_def split: option.splits)

lemma store_delete_databases:
  "databases (snd (store_delete (store_accessor d s mode e0) k e)) n x = databases e n x
   \<or> (n = connection_name d \<and> x = s
      \<and> (\<exists>st. databases e n x = Some st
            \<and> databases (snd (store_delete (store_accessor d s mode e0) k e)) n x
                = Some (st\<lparr>store_records := record_delete k (store_records st)\<rparr>)))"
  by (auto simp add: store_delete_def called_def store_of_accessor store_update_accessor
        accessor_mode Let_def split: option.splits)

lemma store_clear_databases:
  "databases (snd (store_clear (store_accessor d s mode e0) e)) n x = databases e n x
   \<or> (n = connection_name d \<and> x = s)"
  by (auto simp add: store_clear_def called_def store_of_accessor store_update_accessor
        accessor_mode Let_def split: option.splits)

lemma accepted_hosts:
  assumes "db (handle w) = Some d" and "transaction_accepted d s (host w)"
  shows "host (snd (add s v w))
           = snd (store_add (store_accessor d s readwrite (host w)) v
                    (with_accessor s readwrite (host w)))"
    and "host (snd (put s v w))
           = snd (store_put (store_accessor d s readwrite (host w)) v
                    (with_accessor s readwrite (host w)))"
    and "host (snd (delete s k w))
           = snd (store_delete (store_accessor d s readwrite (host w)) k
                    (with_accessor s readwrite (host w)))"
    and "host (snd (clear s w))
           = snd (store_clear (store_accessor d s readwrite (host w))
                    (with_accessor s readwrite (host w)))"
  by (simp_all add: accepted_operations [OF assms] host_of_outcome)

lemma refused_hosts:
  assumes "db (handle w) = Some d" and "\<not> transaction_accepted d s (host w)"
  shows "host (snd (add s v w)) = called (Call_transaction [s] readwrite) (host w)"
    and "host (snd (put s v w)) = called (Call_transaction [s] readwrite) (host w)"
    and "host (snd (delete s k w)) = called (Call_transaction [s] readwrite) (host w)"
    and "host (snd (clear s w)) = called (Call_transaction [s] readwrite) (host w)"
proof -
  from assms obtain ex where "add s v w =
      (Inl (Thrown ex), w\<lparr>host := called (Call_transaction [s] readwrite) (host w)\<rparr>)"
    using refused_operations(1) by blast
  then show "host (snd (add s v w)) = called (Call_transaction [s] readwrite) (host w)"
    by simp
  from assms obtain ex where "put s v w =
      (Inl (Thrown ex), w\<lparr>host := called (Call_transaction [s] readwrite) (host w)\<rparr>)"
    using refused_operations(3) by blast
  then show "host (snd (put s v w)) = called (Call_transaction [s] readwrite) (host w)"
    by simp
  from assms obtain ex where "delete s k w =
      (Inl (Thrown ex), w\<lparr>host := called (Call_transaction [s] readwrite) (host w)\<rparr>)"
    using refused_operations(4) by blast
  then show "host (snd (delete s k w)) = called (Call_transaction [s] readwrite) (host w)"
    by simp
  from assms obtain ex where "clear s w =
      (Inl (Thrown ex), w\<lparr>host := called (Call_transaction [s] readwrite) (host w)\<rparr>)"
    using refused_operations(5) by blast
  then show "host (snd (clear s w)) = called (Call_transaction [s] readwrite) (host w)"
    by simp
qed

lemma writes_storage:
  "upgrading (host (snd (add s v w))) = upgrading (host w)
   \<and> closed (host (snd (add s v w))) = closed (host w)
   \<and> upgrading (host (snd (put s v w))) = upgrading (host w)
   \<and> closed (host (snd (put s v w))) = closed (host w)
   \<and> upgrading (host (snd (delete s k w))) = upgrading (host w)
   \<and> closed (host (snd (delete s k w))) = closed (host w)
   \<and> upgrading (host (snd (clear s w))) = upgrading (host w)
   \<and> closed (host (snd (clear s w))) = closed (host w)"
proof -
  consider (unopened) "db (handle w) = None"
    | (accepted) d where "db (handle w) = Some d" "transaction_accepted d s (host w)"
    | (refused) d where "db (handle w) = Some d" "\<not> transaction_accepted d s (host w)"
    by (cases "db (handle w)") auto
  then show ?thesis
  proof cases
    case unopened
    then show ?thesis by (simp add: data_operations_NotOpen)
  next
    case accepted
    then show ?thesis by (simp add: accepted_hosts writes_flags with_accessor_storage)
  next
    case refused
    then show ?thesis by (simp add: refused_hosts called_storage)
  qed
qed

lemma put_keeps:
  assumes "holds_record d storeName kp k v w"
    and "s \<noteq> storeName \<or> (\<exists>k'. evaluate_keyPath kp data = Some k' \<and> k' \<noteq> k)"
  shows "holds_record d storeName kp k v (snd (put s data w))"
proof (rule holds_record_storage [OF assms(1)])
  from assms(1) have d: "db (handle w) = Some d" by (simp add: holds_record_def)
  show "handle (snd (put s data w)) = handle w" by (simp add: data_operations_handle)
  show "upgrading (host (snd (put s data w))) = upgrading (host w)"
    by (simp add: writes_storage)
  show "closed (host (snd (put s data w))) = closed (host w)"
    by (simp add: writes_storage)
  show "databases (host (snd (put s data w))) (connection_name d) storeName
           = databases (host w) (connection_name d) storeName
         \<or> (\<exists>st rs g. databases (host w) (connection_name d) storeName = Some st
              \<and> databases (host (snd (put s data w))) (connection_name d) storeName
                  = Some (st\<lparr>store_records := rs, store_generator := g\<rparr>)
              \<and> map_of rs k = map_of (store_records st) k)"
  proof (cases "transaction_accepted d s (host w)")
    case False
    with d show ?thesis by (simp add: refused_hosts called_storage)
  next
    case True
    let ?e = "snd (store_put (store_accessor d s readwrite (host w)) data
                    (with_accessor s readwrite (host w)))"
    from d True have h: "host (snd (put s data w)) = ?e" by (simp add: accepted_hosts)
    from store_put_databases [of d s readwrite "host w" data "with_accessor s readwrite (host w)"
        "connection_name d" storeName]
    consider "databases ?e (connection_name d) storeName
          = databases (host w) (connection_name d) storeName"
      | st k' v' g where "storeName = s"
          "databases (host w) (connection_name d) storeName = Some st"
          "store_key st data = Some (k', v', g)"
          "databases ?e (connection_name d) storeName
                = Some (st\<lparr>store_records := record_put k' v' (store_records st),
                           store_generator := g\<rparr>)"
      by (auto simp add: with_accessor_storage)
    then show ?thesis
    proof cases
      case 1
      with h show ?thesis by simp
    next
      case 2
      from assms(1) 2(2) have kp: "store_keyPath st = Some kp"
        by (simp add: holds_record_def)
      from assms(2) 2(1) obtain k'' where k'': "evaluate_keyPath kp data = Some k''" "k'' \<noteq> k"
        by auto
      from kp k''(1) 2(3) have "k' = k''"
        by (simp add: store_key_inline split: if_splits)
      with k''(2) have "map_of (record_put k' v' (store_records st)) k = map_of (store_records st) k"
        by (simp add: map_of_record_put)
      with h 2 show ?thesis by auto
    qed
  qed
qed


lemma add_keeps:
  assumes "holds_record d storeName kp k v w"
    and "s \<noteq> storeName \<or> (\<exists>k'. evaluate_keyPath kp data = Some k' \<and> k' \<noteq> k)"
  shows "holds_record d storeName kp k v (snd (add s data w))"
proof (rule holds_record_storage [OF assms(1)])
  from assms(1) have d: "db (handle w) = Some d" by (simp add: holds_record_def)
  show "handle (snd (add s data w)) = handle w" by (simp add: data_operations_handle)
  show "upgrading (host (snd (add s data w))) = upgrading (host w)"
    by (simp add: writes_storage)
  show "closed (host (snd (add s data w))) = closed (host w)"
    by (simp add: writes_storage)
  show "databases (host (snd (add s data w))) (connection_name d) storeName
           = databases (host w) (connection_name d) storeName
         \<or> (\<exists>st rs g. databases (host w) (connection_name d) storeName = Some st
              \<and> databases (host (snd (add s data w))) (connection_name d) storeName
                  = Some (st\<lparr>store_records := rs, store_generator := g\<rparr>)
              \<and> map_of rs k = map_of (store_records st) k)"
  proof (cases "transaction_accepted d s (host w)")
    case False
    with d show ?thesis by (simp add: refused_hosts called_storage)
  next
    case True
    let ?e = "snd (store_add (store_accessor d s readwrite (host w)) data
                    (with_accessor s readwrite (host w)))"
    from d True have h: "host (snd (add s data w)) = ?e" by (simp add: accepted_hosts)
    from store_add_databases [of d s readwrite "host w" data "with_accessor s readwrite (host w)"
        "connection_name d" storeName]
    consider "databases ?e (connection_name d) storeName
          = databases (host w) (connection_name d) storeName"
      | st k' v' g where "storeName = s"
          "databases (host w) (connection_name d) storeName = Some st"
          "store_key st data = Some (k', v', g)"
          "databases ?e (connection_name d) storeName
                = Some (st\<lparr>store_records := record_put k' v' (store_records st),
                           store_generator := g\<rparr>)"
      by (auto simp add: with_accessor_storage)
    then show ?thesis
    proof cases
      case 1
      with h show ?thesis by simp
    next
      case 2
      from assms(1) 2(2) have kp: "store_keyPath st = Some kp"
        by (simp add: holds_record_def)
      from assms(2) 2(1) obtain k'' where k'': "evaluate_keyPath kp data = Some k''" "k'' \<noteq> k"
        by auto
      from kp k''(1) 2(3) have "k' = k''"
        by (simp add: store_key_inline split: if_splits)
      with k''(2) have "map_of (record_put k' v' (store_records st)) k = map_of (store_records st) k"
        by (simp add: map_of_record_put)
      with h 2 show ?thesis by auto
    qed
  qed
qed

lemma delete_keeps:
  assumes "holds_record d storeName kp k v w"
    and "s \<noteq> storeName \<or> key \<noteq> k"
  shows "holds_record d storeName kp k v (snd (delete s key w))"
proof (rule holds_record_storage [OF assms(1)])
  from assms(1) have d: "db (handle w) = Some d" by (simp add: holds_record_def)
  show "handle (snd (delete s key w)) = handle w" by (simp add: data_operations_handle)
  show "upgrading (host (snd (delete s key w))) = upgrading (host w)"
    by (simp add: writes_storage)
  show "closed (host (snd (delete s key w))) = closed (host w)"
    by (simp add: writes_storage)
  show "databases (host (snd (delete s key w))) (connection_name d) storeName
           = databases (host w) (connection_name d) storeName
         \<or> (\<exists>st rs g. databases (host w) (connection_name d) storeName = Some st
              \<and> databases (host (snd (delete s key w))) (connection_name d) storeName
                  = Some (st\<lparr>store_records := rs, store_generator := g\<rparr>)
              \<and> map_of rs k = map_of (store_records st) k)"
  proof (cases "transaction_accepted d s (host w)")
    case False
    with d show ?thesis by (simp add: refused_hosts called_storage)
  next
    case True
    let ?e = "snd (store_delete (store_accessor d s readwrite (host w)) key
                    (with_accessor s readwrite (host w)))"
    from d True have h: "host (snd (delete s key w)) = ?e" by (simp add: accepted_hosts)
    from store_delete_databases [of d s readwrite "host w" key
        "with_accessor s readwrite (host w)" "connection_name d" storeName]
    consider "databases ?e (connection_name d) storeName
          = databases (host w) (connection_name d) storeName"
      | st where "storeName = s"
          "databases (host w) (connection_name d) storeName = Some st"
          "databases ?e (connection_name d) storeName
                = Some (st\<lparr>store_records := record_delete key (store_records st)\<rparr>)"
      by (auto simp add: with_accessor_storage)
    then show ?thesis
    proof cases
      case 1
      with h show ?thesis by simp
    next
      case 2
      from assms(2) 2(1) have "key \<noteq> k" by simp
      then have "map_of (record_delete key (store_records st)) k = map_of (store_records st) k"
        by (simp add: map_of_record_delete)
      moreover have "st\<lparr>store_records := record_delete key (store_records st)\<rparr>
          = st\<lparr>store_records := record_delete key (store_records st),
               store_generator := store_generator st\<rparr>"
        by simp
      ultimately show ?thesis using h 2 by metis
    qed
  qed
qed

lemma clear_keeps:
  assumes "holds_record d storeName kp k v w" and "s \<noteq> storeName"
  shows "holds_record d storeName kp k v (snd (clear s w))"
proof (rule holds_record_storage [OF assms(1)])
  from assms(1) have d: "db (handle w) = Some d" by (simp add: holds_record_def)
  show "handle (snd (clear s w)) = handle w" by (simp add: data_operations_handle)
  show "upgrading (host (snd (clear s w))) = upgrading (host w)"
    by (simp add: writes_storage)
  show "closed (host (snd (clear s w))) = closed (host w)"
    by (simp add: writes_storage)
  have "databases (host (snd (clear s w))) (connection_name d) storeName
           = databases (host w) (connection_name d) storeName"
  proof (cases "transaction_accepted d s (host w)")
    case False
    with d show ?thesis by (simp add: refused_hosts called_storage)
  next
    case True
    with d assms(2) show ?thesis
      using store_clear_databases [of d s readwrite "host w"
          "with_accessor s readwrite (host w)" "connection_name d" storeName]
      by (simp add: accepted_hosts with_accessor_storage)
  qed
  then show "databases (host (snd (clear s w))) (connection_name d) storeName
           = databases (host w) (connection_name d) storeName
         \<or> (\<exists>st rs g. databases (host w) (connection_name d) storeName = Some st
              \<and> databases (host (snd (clear s w))) (connection_name d) storeName
                  = Some (st\<lparr>store_records := rs, store_generator := g\<rparr>)
              \<and> map_of rs k = map_of (store_records st) k)"
    by simp
qed

lemma reads_keep:
  assumes "holds_record d storeName kp k v w"
  shows "holds_record d storeName kp k v (snd (get s key w))"
    and "holds_record d storeName kp k v (snd (getAll s w))"
    and "holds_record d storeName kp k v (snd (count s w))"
  by (rule holds_record_storage [OF assms]; simp add: data_operations_handle reads_storage)+

lemma step_keeps:
  assumes "holds_record d storeName kp k v (app sys)" and "leaves_key storeName kp k a"
  shows "holds_record d storeName kp k v (app (step a sys))"
proof (cases a)
  case (Add s data)
  with assms show ?thesis by (auto simp add: add_keeps split: option.splits)
next
  case (Put s data)
  with assms show ?thesis by (auto simp add: put_keeps split: option.splits)
next
  case (Delete s key)
  with assms show ?thesis by (auto simp add: delete_keeps)
next
  case (Clear s)
  with assms show ?thesis by (simp add: clear_keeps)
qed (use assms in \<open>simp_all add: reads_keep\<close>)

lemma run_keeps:
  "holds_record d storeName kp k v (app sys) \<Longrightarrow> list_all (leaves_key storeName kp k) between \<Longrightarrow>
   holds_record d storeName kp k v (app (run between sys))"
proof (induction between arbitrary: sys)
  case Nil
  then show ?case by simp
next
  case (Cons a between)
  from Cons.prems have "holds_record d storeName kp k v (app (step a sys))"
    by (simp add: step_keeps)
  with Cons show ?case by simp
qed

lemma put_resolves:
  assumes "db (handle w) = Some d"
    and "transaction_accepted d storeName (host w)"
    and "databases (host w) (connection_name d) storeName = Some st"
    and "store_keyPath st = Some kp"
    and "evaluate_keyPath kp v = Some k"
    and "valid_key k"
  shows "fst (put storeName v w) = Inr ()"
  using assms(3,6)
  by (simp add: accepted_operations(3) [OF assms(1) assms(2)] store_put_def called_def
        store_of_accessor with_accessor_storage accessor_mode
        store_key_inline [OF assms(4) assms(5)] Let_def)

lemma put_stores:
  assumes "db (handle w) = Some d"
    and "transaction_accepted d storeName (host w)"
    and "databases (host w) (connection_name d) storeName = Some st"
    and "store_keyPath st = Some kp"
    and "evaluate_keyPath kp v = Some k"
    and "valid_key k"
  shows "holds_record d storeName kp k v (snd (put storeName v w))"
proof -
  from assms have "fst (put storeName v w) = Inr ()" by (rule put_resolves)
  then have "put storeName v w = (Inr (), snd (put storeName v w))"
    by (simp add: prod_eq_iff)
  then show ?thesis using assms(1) assms(3) assms(4) assms(5) by (rule put_holds)
qed

lemma run_append: "run (xs @ ys) sys = run ys (run xs sys)"
  by (induction xs arbitrary: sys) simp_all

lemma puts_accepted:
  assumes "db (handle (app sys)) = Some d"
    and "transaction_accepted d storeName (host (app sys))"
    and "databases (host (app sys)) (connection_name d) storeName = Some st"
    and "store_keyPath st = Some kp"
    and "valid_key k"
    and "list_all (\<lambda>r. evaluate_keyPath kp r = Some k) earlier"
  shows "db (handle (app (run (map (Put storeName) earlier) sys))) = Some d
     \<and> transaction_accepted d storeName (host (app (run (map (Put storeName) earlier) sys)))
     \<and> (\<exists>st'. databases (host (app (run (map (Put storeName) earlier) sys)))
                  (connection_name d) storeName = Some st'
              \<and> store_keyPath st' = Some kp)"
  using assms
proof (induction earlier arbitrary: sys st)
  case Nil
  then show ?case by simp
next
  case (Cons r earlier)
  from Cons.prems(6) have r: "evaluate_keyPath kp r = Some k"
    and rest: "list_all (\<lambda>r. evaluate_keyPath kp r = Some k) earlier"
    by simp_all
  from Cons.prems(1) Cons.prems(2) Cons.prems(3) Cons.prems(4) r Cons.prems(5)
  have "holds_record d storeName kp k r (snd (put storeName r (app sys)))"
    by (rule put_stores)
  then obtain st' where st': "db (handle (app (step (Put storeName r) sys))) = Some d"
      "transaction_accepted d storeName (host (app (step (Put storeName r) sys)))"
      "databases (host (app (step (Put storeName r) sys))) (connection_name d) storeName
         = Some st'"
      "store_keyPath st' = Some kp"
    by (auto simp add: holds_record_def split: option.splits)
  from Cons.IH [OF st'(1) st'(2) st'(3) st'(4) Cons.prems(5) rest] show ?case by simp
qed

lemma key_of_records:
  "evaluate_keyPath ''id'' john = Some (JString ''1'')"
  "evaluate_keyPath ''id'' jane = Some (JString ''1'')"
  "evaluate_keyPath ''id'' ann = Some (JString ''2'')"
  by (simp_all add: evaluate_keyPath_def john_def jane_def ann_def)

lemma shop_users:
  "databases (host (app shop)) (connection_name shop_connection) ''users'' = Some users_store"
  by (simp add: app_shop shop_connection_def browser_def)

lemma users_keyPath: "store_keyPath users_store = Some ''id''"
  by (simp add: users_store_def)

text \<open>
  Claim C6: read-your-writes with upsert. Let the handle be open on a connection that is
  neither closed nor in an upgrade, and let the named store exist with key path \<open>kp\<close>.
  After any number of earlier puts of records whose key at that path is \<open>key\<close>, a
  \<open>put\<close> of a further record with that key resolves, whatever the store held before;
  and after any data calls that do not write that key, a \<open>get\<close> of \<open>key\<close> resolves
  with the record that was put last.
\<close>

theorem put_then_get:
  assumes "db (handle (app sys)) = Some d"
    and "transaction_accepted d storeName (host (app sys))"
    and "databases (host (app sys)) (connection_name d) storeName = Some st"
    and "store_keyPath st = Some kp"
    and "valid_key key"
    and "list_all (\<lambda>r. evaluate_keyPath kp r = Some key) earlier"
    and "evaluate_keyPath kp record = Some key"
    and "list_all (leaves_key storeName kp key) between"
  shows "fst (put storeName record (app (run (map (Put storeName) earlier) sys))) = Inr ()
     \<and> fst (get storeName key
              (app (run (map (Put storeName) earlier @ Put storeName record # between) sys)))
         = Inr record"
proof -
  let ?sys = "run (map (Put storeName) earlier) sys"
  from puts_accepted [OF assms(1) assms(2) assms(3) assms(4) assms(5) assms(6)]
  obtain st' where st': "db (handle (app ?sys)) = Some d"
      "transaction_accepted d storeName (host (app ?sys))"
      "databases (host (app ?sys)) (connection_name d) storeName = Some st'"
      "store_keyPath st' = Some kp"
    by blast
  from st' assms(7) assms(5) have resolves: "fst (put storeName record (app ?sys)) = Inr ()"
    by (rule put_resolves)
  from st' assms(7) assms(5)
  have "holds_record d storeName kp key record (snd (put storeName record (app ?sys)))"
    by (rule put_stores)
  then have "holds_record d storeName kp key record (app (step (Put storeName record) ?sys))"
    by simp
  with assms(8)
  have "holds_record d storeName kp key record
          (app (run between (step (Put storeName record) ?sys)))"
    by (simp add: run_keeps)
  then have "fst (get storeName key (app (run between (step (Put storeName record) ?sys))))
      = Inr record"
    by (rule holds_get)
  then have "fst (get storeName key
              (app (run (map (Put storeName) earlier @ Put storeName record # between) sys)))
         = Inr record"
    by (simp add: run_append)
  with resolves show ?thesis by simp
qed

text \<open>The example of the specification: John, then Jane under the same key \<open>'1'\<close>. Both
  puts resolve; the \<open>get\<close> after the first resolves with John, and the \<open>get\<close> after
  the second, directly or after other data calls, resolves with Jane.\<close>

theorem put_then_get_witness:
  "db (handle (app shop)) = Some shop_connection
   \<and> transaction_accepted shop_connection ''users'' (host (app shop))
   \<and> databases (host (app shop)) (connection_name shop_connection) ''users'' = Some users_store
   \<and> store_keyPath users_store = Some ''id''
   \<and> valid_key (JString ''1'')
   \<and> list_all (\<lambda>r. evaluate_keyPath ''id'' r = Some (JString ''1'')) [john]
   \<and> evaluate_keyPath ''id'' jane = Some (JString ''1'')
   \<and> list_all (leaves_key ''users'' ''id'' (JString ''1'')) other_calls
   \<and> fst (put ''users'' john (app shop)) = Inr ()
   \<and> fst (get ''users'' (JString ''1'') (app (run [Put ''users'' john] shop))) = Inr john
   \<and> fst (put ''users'' jane (app (run [Put ''users'' john] shop))) = Inr ()
   \<and> fst (get ''users'' (JString ''1'')
            (app (run [Put ''users'' john, Put ''users'' jane] shop))) = Inr jane
   \<and> fst (get ''users'' (JString ''1'')
            (app (run (Put ''users'' john # Put ''users'' jane # other_calls) shop))) = Inr jane"
proof -
  have valid: "valid_key (JString ''1'')" by simp
  have earlier: "list_all (\<lambda>r. evaluate_keyPath ''id'' r = Some (JString ''1'')) [john]"
    by (simp add: key_of_records)
  have none: "list_all (\<lambda>r. evaluate_keyPath ''id'' r = Some (JString ''1'')) []"
    by simp
  have others: "list_all (leaves_key ''users'' ''id'' (JString ''1'')) other_calls"
    by (simp add: other_calls_def key_of_records)
  have direct: "list_all (leaves_key ''users'' ''id'' (JString ''1'')) []"
    by simp
  note first = put_then_get [OF shop_facts(1) shop_accepts shop_users users_keyPath valid
      none key_of_records(1) direct]
  note second = put_then_get [OF shop_facts(1) shop_accepts shop_users users_keyPath valid
      earlier key_of_records(2) direct]
  note later = put_then_get [OF shop_facts(1) shop_accepts shop_users users_keyPath valid
      earlier key_of_records(2) others]
  from first have a: "fst (put ''users'' john (app shop)) = Inr ()"
    "fst (get ''users'' (JString ''1'') (app (run [Put ''users'' john] shop))) = Inr john"
    by simp_all
  from second have b: "fst (put ''users'' jane (app (run [Put ''users'' john] shop))) = Inr ()"
    "fst (get ''users'' (JString ''1'')
            (app (run [Put ''users'' john, Put ''users'' jane] shop))) = Inr jane"
    by simp_all
  from later have c: "fst (get ''users'' (JString ''1'')
            (app (run (Put ''users'' john # Put ''users'' jane # other_calls) shop))) = Inr jane"
    by simp
  from shop_facts(1) shop_accepts shop_users users_keyPath valid earlier key_of_records(2)
    others a b c
  show ?thesis by blast
qed

end
